theory Spec2Isabelle
  imports Main "HOL-Library.Word" "HOL-Library.Sublist"
begin

section \<open>JavaScript values used by the installer\<close>

text \<open>
  A JavaScript string is a finite sequence of 16-bit code units. The installer
  (\<^verbatim>\<open>src/installer.ts\<close>) only ever compares strings, concatenates them
  (template literals), searches them for a literal and percent-encodes them, so the
  model is a list of 16-bit words. \<open>lit\<close> embeds an ASCII literal of the source.
\<close>

type_synonym jsstring = "16 word list"

definition lit :: "string \<Rightarrow> jsstring" where
  "lit s = map of_char s"

text \<open>
  The decimal digits of a natural number: the text of an array index, and of any
  integer that JavaScript prints in full.
\<close>

fun decimal :: "nat \<Rightarrow> jsstring" where
  "decimal n = (if n < 10 then [of_nat (48 + n)] else decimal (n div 10) @ [of_nat (48 + n mod 10)])"

subsection \<open>Numbers\<close>

text \<open>
  A JavaScript number is an IEEE 754 binary64 value. The installer computes with two
  numbers, the retry budget and the delay, and only by \<^verbatim>\<open>retriesLeft - 1\<close>,
  \<^verbatim>\<open>interval * 2\<close> and the truth test \<^verbatim>\<open>if (retriesLeft)\<close>. The model holds
  the numbers without fractional part: \<open>Integer i\<close> for a binary64 value that is the
  integer \<open>i\<close>, the two infinities and \<open>NaN\<close> (\<^verbatim>\<open>-0\<close> is identified with
  \<^verbatim>\<open>0\<close>; both are false and one less than either is \<open>-1\<close>). These are closed
  under the two operations. Numbers with a fractional part are outside the model.

  Every integer of magnitude up to \<open>2^53\<close> is a binary64 value; above, the values are
  the multiples of a power of two and a result is rounded to the nearest of them, a tie to
  the one whose significand is even. \<open>roundTiesToEven a\<close> is that rounding of a natural
  number \<open>a\<close> (below \<open>2^1024\<close>): with \<open>q\<close> the number of bits of \<open>a\<close> beyond 53, the
  candidates are the two multiples of \<open>2^q\<close> around \<open>a\<close>.
\<close>

datatype number = NaN | Infinity | NegInfinity | Integer int

fun bitLength :: "nat \<Rightarrow> nat" where
  "bitLength n = (if n = 0 then 0 else Suc (bitLength (n div 2)))"

declare bitLength.simps [simp del]

definition roundTiesToEven :: "nat \<Rightarrow> nat" where
  "roundTiesToEven a =
     (if a < 2 ^ 53 then a
      else (let q = bitLength a - 53; d = a div 2 ^ q; r = a mod 2 ^ q
            in if 2 * r < 2 ^ q \<or> (2 * r = 2 ^ q \<and> even d) then d * 2 ^ q else (d + 1) * 2 ^ q))"

definition roundInteger :: "int \<Rightarrow> int" where
  "roundInteger x = (if x < 0 then - int (roundTiesToEven (nat (- x))) else int (roundTiesToEven (nat x)))"

text \<open>\<^verbatim>\<open>x - 1\<close>: exact on the infinities, rounded on the integers.\<close>

fun minus_one :: "number \<Rightarrow> number" where
  "minus_one NaN = NaN"
| "minus_one Infinity = Infinity"
| "minus_one NegInfinity = NegInfinity"
| "minus_one (Integer i) = Integer (roundInteger (i - 1))"

text \<open>
  \<^verbatim>\<open>x * 2\<close>: the double of a binary64 value is a binary64 value, unless it
  overflows to an infinity.
\<close>

fun times_two :: "number \<Rightarrow> number" where
  "times_two NaN = NaN"
| "times_two Infinity = Infinity"
| "times_two NegInfinity = NegInfinity"
| "times_two (Integer i) =
     (if \<bar>2 * i\<bar> < 2 ^ 1024 then Integer (2 * i) else if 0 < i then Infinity else NegInfinity)"

text \<open>\<^verbatim>\<open>if (x)\<close> on a number: false for zero and for \<open>NaN\<close>.\<close>

fun ToBoolean :: "number \<Rightarrow> bool" where
  "ToBoolean NaN = False"
| "ToBoolean (Integer i) = (i \<noteq> 0)"
| "ToBoolean Infinity = True"
| "ToBoolean NegInfinity = True"

text \<open>
  Errors are values. \<open>Error m\<close> is \<^verbatim>\<open>new Error(m)\<close>; \<open>URIError\<close> and \<open>TypeError\<close>
  are the built-in errors of those names, raised by the platform.
\<close>

datatype error = Error jsstring | URIError jsstring | TypeError jsstring

text \<open>\<^verbatim>\<open>'' + error\<close>: \<^verbatim>\<open>Error.prototype.toString\<close>, the name, a colon and the message.\<close>

fun error_toString :: "error \<Rightarrow> jsstring" where
  "error_toString (Error m) = lit ''Error: '' @ m"
| "error_toString (URIError m) = lit ''URIError: '' @ m"
| "error_toString (TypeError m) = lit ''TypeError: '' @ m"

subsection \<open>\<^verbatim>\<open>String.prototype.replace\<close> with a string pattern\<close>

text \<open>
  \<^verbatim>\<open>s.replace(pat, rep)\<close> with a string \<open>pat\<close> replaces the first occurrence of \<open>pat\<close>
  in \<open>s\<close>, wherever it is, and nothing else. (The replacement text is taken literally
  as long as it holds no \<^verbatim>\<open>$\<close>; the installer's replacement is the empty string.)
\<close>

fun String_replace :: "jsstring \<Rightarrow> jsstring \<Rightarrow> jsstring \<Rightarrow> jsstring" where
  "String_replace pat rep [] = (if pat = [] then rep else [])"
| "String_replace pat rep (c # cs) =
     (if prefix pat (c # cs) then rep @ drop (length pat) (c # cs)
      else c # String_replace pat rep cs)"

subsection \<open>\<^verbatim>\<open>encodeURIComponent\<close>\<close>

text \<open>
  ECMAScript's \<^verbatim>\<open>Encode(string, unescapedSet)\<close> with the unescaped set of
  \<^verbatim>\<open>encodeURIComponent\<close>: ASCII letters and digits and the marks
  \<^verbatim>\<open>- _ . ! ~ * ' ( )\<close> are copied; any other code point is written as the
  \<^verbatim>\<open>%XX\<close> escapes (upper-case hexadecimal) of its UTF-8 octets; a surrogate code
  unit without its partner raises \<^verbatim>\<open>URIError\<close> (here \<open>None\<close>).
\<close>

definition uriUnescaped :: "16 word \<Rightarrow> bool" where
  "uriUnescaped c \<longleftrightarrow>
     (65 \<le> unat c \<and> unat c \<le> 90) \<or> (97 \<le> unat c \<and> unat c \<le> 122) \<or>
     (48 \<le> unat c \<and> unat c \<le> 57) \<or>
     unat c \<in> {45, 95, 46, 33, 126, 42, 39, 40, 41}"

definition isLeadingSurrogate :: "16 word \<Rightarrow> bool" where
  "isLeadingSurrogate c \<longleftrightarrow> 55296 \<le> unat c \<and> unat c \<le> 56319"

definition isTrailingSurrogate :: "16 word \<Rightarrow> bool" where
  "isTrailingSurrogate c \<longleftrightarrow> 56320 \<le> unat c \<and> unat c \<le> 57343"

definition surrogatePair :: "16 word \<Rightarrow> 16 word \<Rightarrow> nat" where
  "surrogatePair lead trail = (unat lead - 55296) * 1024 + (unat trail - 56320) + 65536"

definition utf8 :: "nat \<Rightarrow> nat list" where
  "utf8 cp =
     (if cp < 128 then [cp]
      else if cp < 2048 then [192 + cp div 64, 128 + cp mod 64]
      else if cp < 65536 then [224 + cp div 4096, 128 + cp div 64 mod 64, 128 + cp mod 64]
      else [240 + cp div 262144, 128 + cp div 4096 mod 64, 128 + cp div 64 mod 64,
            128 + cp mod 64])"

definition hexDigit :: "nat \<Rightarrow> 16 word" where
  "hexDigit n = (if n < 10 then of_nat (48 + n) else of_nat (55 + n))"

definition percentEscape :: "nat \<Rightarrow> jsstring" where
  "percentEscape octet = [37, hexDigit (octet div 16), hexDigit (octet mod 16)]"

definition escapeCodePoint :: "nat \<Rightarrow> jsstring" where
  "escapeCodePoint cp = concat (map percentEscape (utf8 cp))"

fun encodeURIComponent :: "jsstring \<Rightarrow> jsstring option" where
  "encodeURIComponent [] = Some []"
| "encodeURIComponent [c] =
     (if uriUnescaped c then Some [c]
      else if isLeadingSurrogate c \<or> isTrailingSurrogate c then None
      else Some (escapeCodePoint (unat c)))"
| "encodeURIComponent (c # d # ds) =
     (if uriUnescaped c then map_option ((#) c) (encodeURIComponent (d # ds))
      else if isTrailingSurrogate c then None
      else if isLeadingSurrogate c then
        (if isTrailingSurrogate d
         then map_option ((@) (escapeCodePoint (surrogatePair c d))) (encodeURIComponent ds)
         else None)
      else map_option ((@) (escapeCodePoint (unat c))) (encodeURIComponent (d # ds)))"

text \<open>
  \<^verbatim>\<open>String.prototype.isWellFormed\<close>: no surrogate code unit stands without its
  partner.
\<close>

fun isWellFormed :: "jsstring \<Rightarrow> bool" where
  "isWellFormed [] = True"
| "isWellFormed [c] = (\<not> isLeadingSurrogate c \<and> \<not> isTrailingSurrogate c)"
| "isWellFormed (c # d # ds) =
     (if isLeadingSurrogate c then isTrailingSurrogate d \<and> isWellFormed ds
      else \<not> isTrailingSurrogate c \<and> isWellFormed (d # ds))"

section \<open>The Spec Resolver and the Cache Key Builder\<close>

text \<open>\<^verbatim>\<open>getOsString\<close>: the three-way classification of \<^verbatim>\<open>process.platform\<close>.\<close>

definition getOsString :: "jsstring \<Rightarrow> jsstring" where
  "getOsString platform =
     (if platform = lit ''win32'' then lit ''windows''
      else if platform = lit ''darwin'' then lit ''mac''
      else lit ''linux'')"

text \<open>\<^verbatim>\<open>getFeatureVersion\<close>: \<^verbatim>\<open>version.replace('openjdk', '')\<close>.\<close>

definition getFeatureVersion :: "jsstring \<Rightarrow> jsstring" where
  "getFeatureVersion version = String_replace (lit ''openjdk'') [] version"

text \<open>\<^verbatim>\<open>getReleaseType\<close>: the two aliases, anything else verbatim.\<close>

definition getReleaseType :: "jsstring \<Rightarrow> jsstring" where
  "getReleaseType release_type =
     (if release_type = lit ''releases'' then lit ''ga''
      else if release_type = lit ''nightly'' then lit ''ea''
      else release_type)"

text \<open>The two URL templates of \<^verbatim>\<open>getAdoptOpenJdkUrl\<close>.\<close>

definition latestUrl ::
  "jsstring \<Rightarrow> jsstring \<Rightarrow> jsstring \<Rightarrow> jsstring \<Rightarrow> jsstring \<Rightarrow> jsstring \<Rightarrow> jsstring" where
  "latestUrl feature_version release_type_parsed os arch jvm_impl heap_size =
     lit ''https://api.adoptopenjdk.net/v3/binary/latest/'' @ feature_version @ lit ''/'' @
     release_type_parsed @ lit ''/'' @ os @ lit ''/'' @ arch @ lit ''/jdk/'' @ jvm_impl @
     lit ''/'' @ heap_size @ lit ''/adoptopenjdk''"

definition versionUrl ::
  "jsstring \<Rightarrow> jsstring \<Rightarrow> jsstring \<Rightarrow> jsstring \<Rightarrow> jsstring \<Rightarrow> jsstring" where
  "versionUrl release_name os arch jvm_impl heap_size =
     lit ''https://api.adoptopenjdk.net/v3/binary/version/'' @ release_name @ lit ''/'' @
     os @ lit ''/'' @ arch @ lit ''/jdk/'' @ jvm_impl @ lit ''/'' @ heap_size @
     lit ''/adoptopenjdk''"

definition getAdoptOpenJdkUrl ::
  "jsstring \<Rightarrow> jsstring \<Rightarrow> jsstring \<Rightarrow> jsstring \<Rightarrow> jsstring \<Rightarrow> jsstring \<Rightarrow> jsstring \<Rightarrow>
   error + jsstring" where
  "getAdoptOpenJdkUrl release_type version jvm_impl os arch heap_size release =
     (let feature_version = getFeatureVersion version;
          release_type_parsed = getReleaseType release_type
      in if release = lit ''latest''
         then Inr (latestUrl feature_version release_type_parsed os arch jvm_impl heap_size)
         else (case encodeURIComponent release of
                 None \<Rightarrow> Inl (URIError (lit ''URI malformed''))
               | Some release_name \<Rightarrow> Inr (versionUrl release_name os arch jvm_impl heap_size)))"

text \<open>
  \<^verbatim>\<open>getCacheVersionSpec\<close>: the template
  \<^verbatim>\<open>1.0.0-${release_type}-${version}-${jvm_impl}-${heap_size}-${release}\<close>.
  The parameter \<open>os\<close> is received and not used, as in the source.
\<close>

definition getCacheVersionSpec ::
  "jsstring \<Rightarrow> jsstring \<Rightarrow> jsstring \<Rightarrow> jsstring \<Rightarrow> jsstring \<Rightarrow> jsstring \<Rightarrow> jsstring" where
  "getCacheVersionSpec release_type version jvm_impl os heap_size release =
     lit ''1.0.0-'' @ release_type @ lit ''-'' @ version @ lit ''-'' @ jvm_impl @ lit ''-'' @
     heap_size @ lit ''-'' @ release"

section \<open>The world outside the installer\<close>

text \<open>
  The installer acts on its surroundings only through library calls
  (\<^verbatim>\<open>@actions/core\<close>, \<^verbatim>\<open>@actions/tool-cache\<close>, \<^verbatim>\<open>@actions/io\<close>,
  \<^verbatim>\<open>@actions/exec\<close>, \<^verbatim>\<open>fs\<close>, \<^verbatim>\<open>path\<close>, \<^verbatim>\<open>setTimeout\<close>). None of that
  code is part of the repository, so the libraries are parameters of the model: a record
  of functions over an arbitrary state \<open>'s\<close> of the collaborators (disk, network, tool
  cache). Theorems stated for an arbitrary record hold whatever the libraries do.

  A world is that state together with the trace of the effects the installer has
  requested, in the order of the requests: the calls of \<^verbatim>\<open>@actions/core\<close>, the
  timers, and one \<open>Invoke\<close> per call of a state-changing library function, with the
  name of the function and its arguments.
\<close>

datatype event =
    Debug jsstring
  | Info jsstring
  | Warning jsstring
  | ExportVariable jsstring jsstring
  | AddPath jsstring
  | SetTimeout number
  | Invoke string "jsstring list"

record 's world =
  ext :: 's
  trace :: "event list"

record stats =
  isFile :: bool
  isDirectory :: bool

record parsedPath =
  pp_dir :: jsstring
  pp_name :: jsstring

text \<open>
  \<open>fs_statSync\<close> and \<open>fs_lstatSync\<close> return \<open>Inl\<close> when they throw and \<open>Inr None\<close>
  when they return \<^verbatim>\<open>undefined\<close>. \<open>tc_find\<close> returns the empty string when the
  cache has no entry. \<open>Math_random_below n\<close> is \<^verbatim>\<open>Math.floor(Math.random() * n)\<close>.
  \<open>toLowerCase\<close> is \<^verbatim>\<open>String.prototype.toLowerCase\<close>, whose Unicode tables are
  not reproduced here, and \<open>Number_toString\<close> is the text of a number in a string
  concatenation (\<^verbatim>\<open>Number::toString\<close>, which prints the shortest digits that read
  back as the same binary64 value).
\<close>

record 's node_api =
  process_platform :: jsstring
  process_env :: "jsstring \<Rightarrow> jsstring option"
  toLowerCase :: "jsstring \<Rightarrow> jsstring"
  Number_toString :: "number \<Rightarrow> jsstring"
  Math_random_below :: "int \<Rightarrow> 's \<Rightarrow> int \<times> 's"
  path_join :: "jsstring list \<Rightarrow> jsstring"
  path_normalize :: "jsstring \<Rightarrow> jsstring"
  path_extname :: "jsstring \<Rightarrow> jsstring"
  path_parse :: "jsstring \<Rightarrow> parsedPath"
  fs_statSync :: "jsstring \<Rightarrow> 's \<Rightarrow> error + stats option"
  fs_lstatSync :: "jsstring \<Rightarrow> 's \<Rightarrow> error + stats option"
  fs_existsSync :: "jsstring \<Rightarrow> 's \<Rightarrow> bool"
  fs_readdirSync :: "jsstring \<Rightarrow> 's \<Rightarrow> error + jsstring list"
  tc_find :: "jsstring \<Rightarrow> jsstring \<Rightarrow> jsstring \<Rightarrow> 's \<Rightarrow> jsstring"
  tc_downloadTool :: "jsstring \<Rightarrow> 's \<Rightarrow> (error + jsstring) \<times> 's"
  tc_extractTar :: "jsstring \<Rightarrow> jsstring \<Rightarrow> 's \<Rightarrow> (error + jsstring) \<times> 's"
  tc_extractZip :: "jsstring \<Rightarrow> jsstring \<Rightarrow> 's \<Rightarrow> (error + jsstring) \<times> 's"
  tc_extract7z :: "jsstring \<Rightarrow> jsstring \<Rightarrow> 's \<Rightarrow> (error + jsstring) \<times> 's"
  tc_cacheDir :: "jsstring \<Rightarrow> jsstring \<Rightarrow> jsstring \<Rightarrow> jsstring \<Rightarrow> 's \<Rightarrow> (error + jsstring) \<times> 's"
  io_mkdirP :: "jsstring \<Rightarrow> 's \<Rightarrow> (error + unit) \<times> 's"
  exec_exec :: "jsstring \<Rightarrow> jsstring list \<Rightarrow> 's \<Rightarrow> (error + int) \<times> 's"

definition emit :: "event \<Rightarrow> 's world \<Rightarrow> 's world" where
  "emit ev w = w\<lparr>trace := trace w @ [ev]\<rparr>"

text \<open>
  \<open>call name args run\<close>: the library function \<open>name\<close> is called with \<open>args\<close>; the
  call is recorded and \<open>run\<close>, its effect on the collaborators, takes place.
\<close>

definition call ::
  "string \<Rightarrow> jsstring list \<Rightarrow> ('s \<Rightarrow> (error + 'a) \<times> 's) \<Rightarrow> 's world \<Rightarrow> (error + 'a) \<times> 's world" where
  "call name args run w =
     (case run (ext w) of (r, s') \<Rightarrow> (r, w\<lparr>ext := s', trace := trace w @ [Invoke name args]\<rparr>))"

text \<open>The process-wide constants at the head of \<^verbatim>\<open>installer.ts\<close>.\<close>

definition IS_WINDOWS :: "'s node_api \<Rightarrow> bool" where
  "IS_WINDOWS api \<longleftrightarrow> process_platform api = lit ''win32''"

definition IS_MACOS :: "'s node_api \<Rightarrow> bool" where
  "IS_MACOS api \<longleftrightarrow> process_platform api = lit ''darwin''"

definition toolName :: jsstring where
  "toolName = lit ''AdoptOpenJDK''"

text \<open>The constant \<^verbatim>\<open>os\<close> of the source (renamed: \<open>os\<close> is also a parameter name there).\<close>

definition host_os :: "'s node_api \<Rightarrow> jsstring" where
  "host_os api = getOsString (process_platform api)"

text \<open>\<^verbatim>\<open>process.env[name] || dflt\<close>: an unset or empty variable gives the default.\<close>

definition env_or :: "'s node_api \<Rightarrow> jsstring \<Rightarrow> jsstring \<Rightarrow> jsstring" where
  "env_or api name dflt =
     (case process_env api name of None \<Rightarrow> dflt | Some v \<Rightarrow> if v = [] then dflt else v)"

definition getTempDirectory :: "'s node_api \<Rightarrow> jsstring \<Rightarrow> jsstring" where
  "getTempDirectory api tempDirectory =
     (if tempDirectory = [] then
        (let baseLocation =
               (if process_platform api = lit ''win32''
                then env_or api (lit ''USERPROFILE'') (lit ''C:'' @ [92])
                else if process_platform api = lit ''darwin'' then lit ''/Users''
                else lit ''/home'')
         in path_join api [baseLocation, lit ''actions'', lit ''temp''])
      else tempDirectory)"

definition tempDirectory :: "'s node_api \<Rightarrow> jsstring" where
  "tempDirectory api = getTempDirectory api (env_or api (lit ''RUNNER_TEMP'') [])"

section \<open>The Retrying Fetcher\<close>

text \<open>
  \<^verbatim>\<open>retry(fn, retriesLeft, interval, exponential)\<close>. The callback \<open>fn\<close> acts on the
  world and either resolves (\<open>Inr\<close>) or throws or rejects (\<open>Inl\<close>). The JavaScript
  recursion has no bound of its own, so the model is a partial function: \<open>None\<close> is
  the call that never settles. The budget and the interval are JavaScript numbers, with
  the arithmetic of binary64. Every call of the callback settles (\<open>fn\<close> is a total
  function).
\<close>

definition max_retries_error :: error where
  "max_retries_error = Error (lit ''Unable to download JDK, max retries reached'')"

definition announce_retry ::
  "'s node_api \<Rightarrow> error \<Rightarrow> number \<Rightarrow> number \<Rightarrow> 's world \<Rightarrow> 's world" where
  "announce_retry api err retriesLeft interval w =
     emit (SetTimeout interval)
       (emit (Info (Number_toString api retriesLeft @ lit '' retries left''))
          (emit (Warning (lit ''Retrying after a grace period of '' @
                          Number_toString api interval @ lit ''ms.''))
             (emit (Warning (lit ''Download failed because of: '' @ error_toString err)) w)))"

partial_function (option) retry ::
  "'s node_api \<Rightarrow> ('s world \<Rightarrow> (error + jsstring) \<times> 's world) \<Rightarrow> number \<Rightarrow> number \<Rightarrow> bool \<Rightarrow>
   's world \<Rightarrow> ((error + jsstring) \<times> 's world) option" where
  "retry api fn retriesLeft interval exponential w =
     (case fn w of
        (Inr val, w') \<Rightarrow> Some (Inr val, w')
      | (Inl err, w') \<Rightarrow>
          if ToBoolean retriesLeft then
            retry api fn (minus_one retriesLeft)
              (if exponential then times_two interval else interval) exponential
              (announce_retry api err retriesLeft interval w')
          else Some (Inl max_retries_error, w'))"

declare retry.simps [code]

text \<open>
  Test doubles for the callback: \<open>fetch f\<close> is a callback whose effect on the
  collaborators is \<open>f\<close> and which records each of its invocations, so that
  \<open>attempts\<close> counts them. \<open>fails_then_succeeds f n s\<close>: from the state \<open>s\<close>, the
  first \<open>n\<close> calls of \<open>f\<close> fail and the next one succeeds.
\<close>

definition fetch :: "('s \<Rightarrow> (error + jsstring) \<times> 's) \<Rightarrow> 's world \<Rightarrow> (error + jsstring) \<times> 's world" where
  "fetch f = call ''fn'' [] f"


definition delays :: "'s world \<Rightarrow> number list" where
  "delays w = concat (map (\<lambda>ev. case ev of SetTimeout i \<Rightarrow> [i] | _ \<Rightarrow> []) (trace w))"


section \<open>The Archive Extractor\<close>

text \<open>
  \<^verbatim>\<open>extractFiles(file, fileEnding, destinationFolder)\<close>: the two checks on the
  result of \<^verbatim>\<open>fs.statSync\<close> come first, the \<^verbatim>\<open>switch\<close> on the extension second.
\<close>

definition extractFiles ::
  "'s node_api \<Rightarrow> jsstring \<Rightarrow> jsstring \<Rightarrow> jsstring \<Rightarrow> 's world \<Rightarrow> (error + unit) \<times> 's world" where
  "extractFiles api file fileEnding destinationFolder w =
     (case fs_statSync api file (ext w) of
        Inl thrown \<Rightarrow> (Inl thrown, w)
      | Inr None \<Rightarrow>
          (Inl (Error (lit ''Failed to extract '' @ file @ lit '' - it doesn't exist'')), w)
      | Inr (Some stats) \<Rightarrow>
          if isDirectory stats then
            (Inl (Error (lit ''Failed to extract '' @ file @ lit '' - it is a directory'')), w)
          else if fileEnding = lit ''.tar'' \<or> fileEnding = lit ''.tar.gz'' then
            (case call ''tc.extractTar'' [file, destinationFolder]
                    (tc_extractTar api file destinationFolder) w of
               (Inl thrown, w') \<Rightarrow> (Inl thrown, w')
             | (Inr _, w') \<Rightarrow> (Inr (), w'))
          else if fileEnding = lit ''.zip'' then
            (case call ''tc.extractZip'' [file, destinationFolder]
                    (tc_extractZip api file destinationFolder) w of
               (Inl thrown, w') \<Rightarrow> (Inl thrown, w')
             | (Inr _, w') \<Rightarrow> (Inr (), w'))
          else if fileEnding = lit ''.7z'' then
            (case call ''tc.extract7z'' [file, destinationFolder]
                    (tc_extract7z api file destinationFolder) w of
               (Inl thrown, w') \<Rightarrow> (Inl thrown, w')
             | (Inr _, w') \<Rightarrow> (Inr (), w'))
          else
            (Inl (Error (lit ''Failed to extract '' @ file @ lit '' - unknown compression'')), w))"

section \<open>The Post-Extract Normalizer\<close>

text \<open>
  \<^verbatim>\<open>for (const file in array)\<close> enumerates the property keys of the array, which
  are its indices written in decimal: \<^verbatim>\<open>"0"\<close>, \<^verbatim>\<open>"1"\<close>, \<dots> The elements
  themselves are what \<^verbatim>\<open>for (const file of array)\<close> would enumerate.
\<close>

definition for_in_keys :: "'a list \<Rightarrow> jsstring list" where
  "for_in_keys xs = map decimal [0..<length xs]"

text \<open>
  A sequential loop with \<^verbatim>\<open>await\<close> in its body: the first iteration that throws
  ends the loop with that error; \<open>None\<close> is an iteration that does not settle.
\<close>

fun for_await ::
  "('a \<Rightarrow> 'w \<Rightarrow> ((error + unit) \<times> 'w) option) \<Rightarrow> 'a list \<Rightarrow> 'w \<Rightarrow> ((error + unit) \<times> 'w) option" where
  "for_await body [] w = Some (Inr (), w)"
| "for_await body (x # xs) w =
     (case body x w of
        None \<Rightarrow> None
      | Some (Inl thrown, w') \<Rightarrow> Some (Inl thrown, w')
      | Some (Inr _, w') \<Rightarrow> for_await body xs w')"

text \<open>
  \<^verbatim>\<open>unpackJars(fsPath, javaBinPath)\<close>. The recursion follows the directory tree
  that the \<^verbatim>\<open>fs\<close> functions report, which the model cannot bound, so the first
  argument bounds the depth of the recursion: \<open>None\<close> is a tree deeper than that.
\<close>

fun unpackJars ::
  "nat \<Rightarrow> 's node_api \<Rightarrow> jsstring \<Rightarrow> jsstring \<Rightarrow> 's world \<Rightarrow> ((error + unit) \<times> 's world) option" where
  "unpackJars 0 api fsPath javaBinPath w = None"
| "unpackJars (Suc depth) api fsPath javaBinPath w =
     (if fs_existsSync api fsPath (ext w) then
        (case fs_lstatSync api fsPath (ext w) of
           Inl thrown \<Rightarrow> Some (Inl thrown, w)
         | Inr None \<Rightarrow>
             Some (Inl (TypeError (lit ''Cannot read properties of undefined (reading 'isDirectory')'')), w)
         | Inr (Some stats) \<Rightarrow>
             if isDirectory stats then
               (case fs_readdirSync api fsPath (ext w) of
                  Inl thrown \<Rightarrow> Some (Inl thrown, w)
                | Inr entries \<Rightarrow>
                    for_await
                      (\<lambda>file. unpackJars depth api (path_join api [fsPath, file]) javaBinPath)
                      (for_in_keys entries) w)
             else if toLowerCase api (path_extname api fsPath) = lit ''.pack'' then
               (let p = path_parse api fsPath;
                    toolName = (if IS_WINDOWS api then lit ''unpack200.exe'' else lit ''unpack200'');
                    args = (if IS_WINDOWS api then lit ''-r -v -l '' @ [34, 34] else []);
                    name = path_join api [pp_dir p, pp_name p];
                    commandLine = [34] @ path_join api [javaBinPath, toolName] @ [34];
                    argument = args @ [32, 34] @ name @ lit ''.pack'' @ [34, 32, 34] @ name @
                               lit ''.jar'' @ [34]
                in case call ''exec.exec'' [commandLine, argument]
                          (exec_exec api commandLine [argument]) w of
                     (Inl thrown, w') \<Rightarrow> Some (Inl thrown, w')
                   | (Inr _, w') \<Rightarrow> Some (Inr (), w'))
             else Some (Inr (), w))
      else Some (Inr (), w))"

text \<open>
  \<^verbatim>\<open>getJdkDirectory\<close>: the first entry of the directory listing. In an empty
  listing \<^verbatim>\<open>[0]\<close> is \<^verbatim>\<open>undefined\<close>, which \<^verbatim>\<open>path.join\<close> rejects.
\<close>

definition getJdkDirectory :: "'s node_api \<Rightarrow> jsstring \<Rightarrow> 's \<Rightarrow> error + jsstring" where
  "getJdkDirectory api destinationFolder s =
     (case fs_readdirSync api destinationFolder s of
        Inl thrown \<Rightarrow> Inl thrown
      | Inr [] \<Rightarrow> Inl (TypeError (lit ''The '' @ [34] @ lit ''path'' @ [34] @
                            lit '' argument must be of type string. Received undefined''))
      | Inr (first # _) \<Rightarrow>
          if IS_MACOS api
          then Inr (path_join api [destinationFolder, first, lit ''Contents'', lit ''Home''])
          else Inr (path_join api [destinationFolder, first]))"

definition unzipJavaDownload ::
  "nat \<Rightarrow> 's node_api \<Rightarrow> jsstring \<Rightarrow> jsstring \<Rightarrow> jsstring \<Rightarrow> 's world \<Rightarrow>
   ((error + jsstring) \<times> 's world) option" where
  "unzipJavaDownload depth api repoRoot fileEnding destinationFolder w =
     (case call ''io.mkdirP'' [destinationFolder] (io_mkdirP api destinationFolder) w of
        (Inl thrown, w1) \<Rightarrow> Some (Inl thrown, w1)
      | (Inr _, w1) \<Rightarrow>
          (let jdkFile = path_normalize api repoRoot
           in case fs_statSync api jdkFile (ext w1) of
                Inl thrown \<Rightarrow> Some (Inl thrown, w1)
              | Inr None \<Rightarrow>
                  Some (Inl (TypeError (lit ''Cannot read properties of undefined (reading 'isFile')'')), w1)
              | Inr (Some stats) \<Rightarrow>
                  if isFile stats then
                    (case extractFiles api jdkFile fileEnding destinationFolder w1 of
                       (Inl thrown, w2) \<Rightarrow> Some (Inl thrown, w2)
                     | (Inr _, w2) \<Rightarrow>
                         (case getJdkDirectory api destinationFolder (ext w2) of
                            Inl thrown \<Rightarrow> Some (Inl thrown, w2)
                          | Inr jdkDirectory \<Rightarrow>
                              (case unpackJars depth api jdkDirectory
                                      (path_join api [jdkDirectory, lit ''bin'']) w2 of
                                 None \<Rightarrow> None
                               | Some (Inl thrown, w3) \<Rightarrow> Some (Inl thrown, w3)
                               | Some (Inr _, w3) \<Rightarrow> Some (Inr jdkDirectory, w3))))
                  else
                    Some (Inl (Error (lit ''JDK argument '' @ jdkFile @ lit '' is not a file'')), w1)))"

section \<open>The pipeline\<close>

text \<open>The last three statements of \<^verbatim>\<open>downloadJavaBinary\<close>: the Environment Publisher.\<close>

definition publish :: "'s node_api \<Rightarrow> jsstring \<Rightarrow> jsstring \<Rightarrow> jsstring \<Rightarrow> 's world \<Rightarrow> 's world" where
  "publish api version arch toolPath w =
     (let extendedJavaHome = lit ''JAVA_HOME_'' @ version @ lit ''_'' @ arch
      in emit (AddPath (path_join api [toolPath, lit ''bin'']))
           (emit (ExportVariable extendedJavaHome toolPath)
              (emit (ExportVariable (lit ''JAVA_HOME'') toolPath) w)))"

text \<open>
  \<^verbatim>\<open>downloadJavaBinary\<close>. \<^verbatim>\<open>if (toolPath)\<close> is the test for a string that is
  not empty. The first argument bounds the depth of the directory walk of \<open>unpackJars\<close>.
\<close>

definition downloadJavaBinary ::
  "nat \<Rightarrow> 's node_api \<Rightarrow> jsstring \<Rightarrow> jsstring \<Rightarrow> jsstring \<Rightarrow> jsstring \<Rightarrow> jsstring \<Rightarrow> jsstring \<Rightarrow>
   jsstring \<Rightarrow> 's world \<Rightarrow> ((error + unit) \<times> 's world) option" where
  "downloadJavaBinary depth api release_type version jvm_impl os arch heap_size release w =
     (let versionSpec = getCacheVersionSpec release_type version jvm_impl os heap_size release;
          toolPath = tc_find api toolName versionSpec arch (ext w)
      in if toolPath \<noteq> [] then
           Some (Inr (), publish api version arch toolPath
                           (emit (Debug (lit ''Tool found in cache '' @ toolPath)) w))
         else
           (let w1 = emit (Debug (lit ''Downloading JDK from AdoptOpenJDK'')) w
            in case encodeURIComponent release of
                 None \<Rightarrow> Some (Inl (URIError (lit ''URI malformed'')), w1)
               | Some release_encoded \<Rightarrow>
                   (case getAdoptOpenJdkUrl release_type version jvm_impl os arch heap_size release of
                      Inl thrown \<Rightarrow> Some (Inl thrown, w1)
                    | Inr url \<Rightarrow>
                        (case retry api (call ''tc.downloadTool'' [url] (tc_downloadTool api url))
                                (Integer 10) (Integer 1000) True (emit (Info (lit ''Downloading JDK from '' @ url)) w1) of
                           None \<Rightarrow> None
                         | Some (Inl thrown, w2) \<Rightarrow> Some (Inl thrown, w2)
                         | Some (Inr jdkFile, w2) \<Rightarrow>
                             (let compressedFileExtension =
                                    (if IS_WINDOWS api then lit ''.zip'' else lit ''.tar.gz'');
                                  (random, s3) = Math_random_below api 2000000000 (ext w2);
                                  w3 = w2\<lparr>ext := s3\<rparr>;
                                  tempDir = path_join api
                                    [tempDirectory api, lit ''adoptopenjdk_'' @ Number_toString api (Integer random)]
                              in case unzipJavaDownload depth api jdkFile compressedFileExtension
                                        tempDir w3 of
                                   None \<Rightarrow> None
                                 | Some (Inl thrown, w4) \<Rightarrow> Some (Inl thrown, w4)
                                 | Some (Inr jdkDir, w4) \<Rightarrow>
                                     (case call ''tc.cacheDir'' [jdkDir, toolName, versionSpec, arch]
                                             (tc_cacheDir api jdkDir toolName versionSpec arch)
                                             (emit (Debug (lit ''JDK extracted to '' @ jdkDir)) w4) of
                                        (Inl thrown, w5) \<Rightarrow> Some (Inl thrown, w5)
                                      | (Inr cached, w5) \<Rightarrow>
                                          Some (Inr (), publish api version arch cached w5)))))))"

definition getJava ::
  "nat \<Rightarrow> 's node_api \<Rightarrow> jsstring \<Rightarrow> jsstring \<Rightarrow> jsstring \<Rightarrow> jsstring \<Rightarrow> jsstring \<Rightarrow> jsstring \<Rightarrow>
   's world \<Rightarrow> ((error + unit) \<times> 's world) option" where
  "getJava depth api release_type version jvm_impl arch heap_size release w =
     downloadJavaBinary depth api release_type version jvm_impl (host_os api) arch heap_size release w"

section \<open>A concrete platform\<close>

text \<open>
  One instance of the libraries, for the closed examples below: a Linux host whose
  disk is a table from absolute paths to nodes, with a tool cache beside it, no
  network, and a count of the requests made to the test callback \<open>flaky\<close> below. Its \<^verbatim>\<open>path\<close> functions agree with Node's on the paths of the examples
  (absolute, normalised, without trailing slash); its \<open>toLowerCase\<close> agrees with
  JavaScript's on ASCII and its \<open>Number_toString\<close> on the integers up to \<open>2^53\<close>.
\<close>

datatype fsnode = RegularFile | Directory "jsstring list"

record disk =
  files :: "(jsstring \<times> fsnode) list"
  tool_cache :: "((jsstring \<times> jsstring \<times> jsstring) \<times> jsstring) list"
  requests :: nat

fun posix_join :: "jsstring list \<Rightarrow> jsstring" where
  "posix_join [] = lit ''.''"
| "posix_join [p] = p"
| "posix_join (p # q # ps) = p @ lit ''/'' @ posix_join (q # ps)"

definition posix_basename :: "jsstring \<Rightarrow> jsstring" where
  "posix_basename p = rev (takeWhile (\<lambda>c. c \<noteq> 47) (rev p))"

definition posix_dirname :: "jsstring \<Rightarrow> jsstring" where
  "posix_dirname p = rev (drop 1 (dropWhile (\<lambda>c. c \<noteq> 47) (rev p)))"

definition posix_extname :: "jsstring \<Rightarrow> jsstring" where
  "posix_extname p =
     (let base = posix_basename p; tail = takeWhile (\<lambda>c. c \<noteq> 46) (rev base)
      in if length base \<le> length tail + 1 then [] else 46 # rev tail)"

definition posix_parse :: "jsstring \<Rightarrow> parsedPath" where
  "posix_parse p =
     (let base = posix_basename p
      in \<lparr>pp_dir = posix_dirname p,
          pp_name = take (length base - length (posix_extname p)) base\<rparr>)"

text \<open>The text of a number; it is JavaScript's for the integers up to \<open>2^53\<close>.\<close>

fun decimal_toString :: "number \<Rightarrow> jsstring" where
  "decimal_toString NaN = lit ''NaN''"
| "decimal_toString Infinity = lit ''Infinity''"
| "decimal_toString NegInfinity = lit ''-Infinity''"
| "decimal_toString (Integer i) = (if i < 0 then lit ''-'' @ decimal (nat (- i)) else decimal (nat i))"

definition ascii_toLowerCase :: "jsstring \<Rightarrow> jsstring" where
  "ascii_toLowerCase s = map (\<lambda>c. if 65 \<le> unat c \<and> unat c \<le> 90 then c + 32 else c) s"

definition disk_stat :: "jsstring \<Rightarrow> disk \<Rightarrow> error + stats option" where
  "disk_stat p d =
     (case map_of (files d) p of
        None \<Rightarrow> Inl (Error (lit ''ENOENT: no such file or directory, stat '' @ [39] @ p @ [39]))
      | Some RegularFile \<Rightarrow> Inr (Some \<lparr>isFile = True, isDirectory = False\<rparr>)
      | Some (Directory entries) \<Rightarrow> Inr (Some \<lparr>isFile = False, isDirectory = True\<rparr>))"

definition disk_readdir :: "jsstring \<Rightarrow> disk \<Rightarrow> error + jsstring list" where
  "disk_readdir p d =
     (case map_of (files d) p of
        None \<Rightarrow> Inl (Error (lit ''ENOENT: no such file or directory, scandir '' @ [39] @ p @ [39]))
      | Some RegularFile \<Rightarrow> Inl (Error (lit ''ENOTDIR: not a directory, scandir '' @ [39] @ p @ [39]))
      | Some (Directory entries) \<Rightarrow> Inr entries)"

definition disk_find :: "jsstring \<Rightarrow> jsstring \<Rightarrow> jsstring \<Rightarrow> disk \<Rightarrow> jsstring" where
  "disk_find tool versionSpec arch d =
     (case map_of (tool_cache d) (tool, versionSpec, arch) of None \<Rightarrow> [] | Some p \<Rightarrow> p)"

definition linux_host :: "disk node_api" where
  "linux_host =
     \<lparr>process_platform = lit ''linux'',
      process_env = (\<lambda>name. None),
      toLowerCase = ascii_toLowerCase,
      Number_toString = decimal_toString,
      Math_random_below = (\<lambda>n d. (0, d)),
      path_join = posix_join,
      path_normalize = (\<lambda>p. p),
      path_extname = posix_extname,
      path_parse = posix_parse,
      fs_statSync = disk_stat,
      fs_lstatSync = disk_stat,
      fs_existsSync = (\<lambda>p d. map_of (files d) p \<noteq> None),
      fs_readdirSync = disk_readdir,
      tc_find = disk_find,
      tc_downloadTool = (\<lambda>url d. (Inl (Error (lit ''getaddrinfo ENOTFOUND api.adoptopenjdk.net'')), d)),
      tc_extractTar = (\<lambda>file dest d. (Inr dest, d)),
      tc_extractZip = (\<lambda>file dest d. (Inr dest, d)),
      tc_extract7z = (\<lambda>file dest d. (Inr dest, d)),
      tc_cacheDir = (\<lambda>dir tool versionSpec arch d.
         (Inr dir, d\<lparr>tool_cache := ((tool, versionSpec, arch), dir) # tool_cache d\<rparr>)),
      io_mkdirP = (\<lambda>p d. (Inr (), d)),
      exec_exec = (\<lambda>commandLine args d. (Inr 0, d))\<rparr>"

text \<open>A JDK directory holding one packed archive, and the same disk with a cached JDK.\<close>

definition jdk_disk :: disk where
  "jdk_disk =
     \<lparr>files = [(lit ''/jdk'', Directory [lit ''rt.pack'']), (lit ''/jdk/rt.pack'', RegularFile)],
      tool_cache = [],
      requests = 0\<rparr>"

definition cached_disk :: disk where
  "cached_disk =
     \<lparr>files = [(lit ''/jdk'', Directory [lit ''rt.pack'']), (lit ''/jdk/rt.pack'', RegularFile)],
      tool_cache =
        [((lit ''AdoptOpenJDK'', lit ''1.0.0-ga-11-hotspot-normal-latest'', lit ''x64''),
          lit ''/opt/hostedtoolcache/AdoptOpenJDK/1.0.0-ga-11-hotspot-normal-latest/x64'')],
      requests = 0\<rparr>"

text \<open>
  A download that fails with a time-out on its first \<open>n\<close> requests and succeeds from
  then on; the disk counts the requests.
\<close>

definition flaky :: "nat \<Rightarrow> disk \<Rightarrow> (error + jsstring) \<times> disk" where
  "flaky n d =
     (if requests d < n then (Inl (Error (lit ''ETIMEDOUT'')), d\<lparr>requests := Suc (requests d)\<rparr>)
      else (Inr (lit ''/tmp/jdk.tar.gz''), d\<lparr>requests := Suc (requests d)\<rparr>))"

section \<open>Facts about strings\<close>

lemma of_char_lt_256: "(of_char c :: nat) < 256"
proof -
  have "(of_char c :: nat) mod 256 = of_char c" by simp
  then show ?thesis by (metis mod_less_divisor zero_less_numeral)
qed

lemma unat_of_char: "unat (of_char c :: 16 word) = of_char c"
proof -
  have "(256::nat) \<le> 2 ^ 16" by simp
  with of_char_lt_256 [of c] have lt: "(of_char c :: nat) < 2 ^ 16" by (rule less_le_trans)
  have "(of_char c :: 16 word) = of_nat (of_char c)" by (simp add: of_nat_of_char)
  then have "unat (of_char c :: 16 word) = (of_char c :: nat) mod 2 ^ 16"
    by (simp add: unat_of_nat)
  also have "\<dots> = of_char c" using lt by (rule mod_less)
  finally show ?thesis .
qed

lemma of_char_word_eq_iff: "(of_char c :: 16 word) = of_char d \<longleftrightarrow> c = d"
proof
  assume "(of_char c :: 16 word) = of_char d"
  then have "unat (of_char c :: 16 word) = unat (of_char d :: 16 word)" by simp
  then show "c = d" by (simp add: unat_of_char)
qed simp

lemma lit_eq_iff: "lit a = lit b \<longleftrightarrow> a = b"
proof -
  have "inj (of_char :: char \<Rightarrow> 16 word)"
    by (rule injI) (simp only: of_char_word_eq_iff)
  then show ?thesis unfolding lit_def by (rule inj_map_eq_map)
qed

lemma String_replace_prefix: "String_replace pat rep (pat @ s) = rep @ s"
proof (cases "pat @ s")
  case Nil
  then show ?thesis by simp
next
  case (Cons y ys)
  have "prefix pat (y # ys)" unfolding Cons [symmetric] by simp
  then have "String_replace pat rep (y # ys) = rep @ drop (length pat) (y # ys)" by simp
  then show ?thesis unfolding Cons [symmetric] by simp
qed

lemma String_replace_absent:
  "(\<nexists>a b. s = a @ pat @ b) \<Longrightarrow> String_replace pat rep s = s"
proof (induction s)
  case Nil
  then show ?case by auto
next
  case (Cons c cs)
  have np: "\<not> prefix pat (c # cs)"
  proof
    assume "prefix pat (c # cs)"
    then obtain b where "c # cs = pat @ b" by (auto simp: prefix_def)
    then have "c # cs = [] @ pat @ b" by simp
    with Cons.prems show False by blast
  qed
  have "\<nexists>a b. cs = a @ pat @ b"
  proof
    assume "\<exists>a b. cs = a @ pat @ b"
    then obtain a b where "cs = a @ pat @ b" by blast
    then have "c # cs = (c # a) @ pat @ b" by simp
    with Cons.prems show False by blast
  qed
  with Cons.IH np show ?case by simp
qed

lemma String_replace_first:
  "(\<forall>a' b'. a @ pat @ b = a' @ pat @ b' \<longrightarrow> length a \<le> length a') \<Longrightarrow>
   String_replace pat rep (a @ pat @ b) = a @ rep @ b"
proof (induction a)
  case Nil
  then show ?case by (simp add: String_replace_prefix)
next
  case (Cons x a)
  have np: "\<not> prefix pat (x # a @ pat @ b)"
  proof
    assume "prefix pat (x # a @ pat @ b)"
    then obtain b' where "x # a @ pat @ b = pat @ b'" by (auto simp: prefix_def)
    then have "(x # a) @ pat @ b = [] @ pat @ b'" by simp
    with Cons.prems have "length (x # a) \<le> length ([]::jsstring)" by blast
    then show False by simp
  qed
  have "\<forall>a' b'. a @ pat @ b = a' @ pat @ b' \<longrightarrow> length a \<le> length a'"
  proof (intro allI impI)
    fix a' b' assume "a @ pat @ b = a' @ pat @ b'"
    then have "(x # a) @ pat @ b = (x # a') @ pat @ b'" by simp
    with Cons.prems have "length (x # a) \<le> length (x # a')" by blast
    then show "length a \<le> length a'" by simp
  qed
  with Cons.IH np show ?case by simp
qed

lemma separator_split:
  "(x::16 word) \<notin> set a \<Longrightarrow> x \<notin> set a' \<Longrightarrow> a @ x # r = a' @ x # r' \<Longrightarrow> a = a' \<and> r = r'"
proof (induction a arbitrary: a')
  case Nil
  then show ?case by (cases a') auto
next
  case (Cons y a)
  then show ?case by (cases a') auto
qed

subsection \<open>Facts about \<open>encodeURIComponent\<close>\<close>

lemma unat_lt_65536: "unat (c::16 word) < 65536"
proof -
  have "unat c < 2 ^ LENGTH(16)" by (rule unsigned_less)
  then show ?thesis by simp
qed

lemma unat_of_nat_small: "k < 65536 \<Longrightarrow> unat (of_nat k :: 16 word) = k"
  by (simp add: unat_of_nat)

lemma surrogates_disjoint: "isLeadingSurrogate c \<Longrightarrow> \<not> isTrailingSurrogate c"
  by (simp add: isLeadingSurrogate_def isTrailingSurrogate_def)

lemma uriUnescaped_not_surrogate:
  "uriUnescaped c \<Longrightarrow> \<not> isLeadingSurrogate c \<and> \<not> isTrailingSurrogate c"
  by (auto simp: uriUnescaped_def isLeadingSurrogate_def isTrailingSurrogate_def)

lemma utf8_octets:
  assumes "cp < 1114112" "x \<in> set (utf8 cp)"
  shows "x < 256"
proof -
  have m: "cp mod 64 < 64" "cp div 64 mod 64 < 64" "cp div 4096 mod 64 < 64" by simp_all
  consider "cp < 128" | "128 \<le> cp \<and> cp < 2048" | "2048 \<le> cp \<and> cp < 65536" | "65536 \<le> cp"
    by arith
  then show ?thesis
  proof cases
    case 1
    with assms(2) show ?thesis by (simp add: utf8_def)
  next
    case 2
    then have "cp div 64 < 32" by arith
    with 2 assms(2) m show ?thesis by (auto simp: utf8_def)
  next
    case 3
    then have "cp div 4096 < 16" by arith
    with 3 assms(2) m show ?thesis by (auto simp: utf8_def)
  next
    case 4
    from assms(1) have "cp div 262144 < 5" by arith
    with 4 assms(2) m show ?thesis by (auto simp: utf8_def)
  qed
qed

lemma hexDigit_unescaped:
  assumes "n < 16"
  shows "uriUnescaped (hexDigit n)"
proof (cases "n < 10")
  case True
  then have "hexDigit n = of_nat (48 + n)" by (simp only: hexDigit_def if_True)
  moreover have "unat (of_nat (48 + n) :: 16 word) = 48 + n"
    by (rule unat_of_nat_small) (use True in arith)
  ultimately have "unat (hexDigit n) = 48 + n" by (simp only:)
  with True show ?thesis by (simp add: uriUnescaped_def)
next
  case False
  then have "hexDigit n = of_nat (55 + n)" by (simp only: hexDigit_def if_False)
  moreover have "unat (of_nat (55 + n) :: 16 word) = 55 + n"
    by (rule unat_of_nat_small) (use assms in arith)
  ultimately have "unat (hexDigit n) = 55 + n" by (simp only:)
  with False assms show ?thesis by (simp add: uriUnescaped_def)
qed

lemma percentEscape_safe:
  "octet < 256 \<Longrightarrow> c \<in> set (percentEscape octet) \<Longrightarrow> uriUnescaped c \<or> c = 37"
  by (auto simp: percentEscape_def intro!: hexDigit_unescaped)

lemma escapeCodePoint_safe:
  "cp < 1114112 \<Longrightarrow> c \<in> set (escapeCodePoint cp) \<Longrightarrow> uriUnescaped c \<or> c = 37"
  by (auto simp: escapeCodePoint_def dest: utf8_octets percentEscape_safe)

lemma surrogatePair_lt:
  assumes "isLeadingSurrogate c" "isTrailingSurrogate d"
  shows "surrogatePair c d < 1114112"
proof -
  from assms(1) have "unat c - 55296 \<le> 1023" unfolding isLeadingSurrogate_def by arith
  then have "(unat c - 55296) * 1024 \<le> 1023 * 1024" by (rule mult_le_mono1)
  moreover from assms(2) have "unat d - 56320 \<le> 1023" unfolding isTrailingSurrogate_def by arith
  ultimately show ?thesis unfolding surrogatePair_def by arith
qed

lemma encodeURIComponent_safe:
  "encodeURIComponent s = Some e \<Longrightarrow> c \<in> set e \<Longrightarrow> uriUnescaped c \<or> c = 37"
proof (induction s arbitrary: e rule: encodeURIComponent.induct)
  case 1
  then show ?case by simp
next
  case (2 x)
  then show ?case
    using escapeCodePoint_safe [of "unat x" c] unat_lt_65536 [of x]
    by (auto split: if_splits)
next
  case (3 x d ds)
  then show ?case
    using escapeCodePoint_safe [of "unat x" c] unat_lt_65536 [of x]
      escapeCodePoint_safe [of "surrogatePair x d" c] surrogatePair_lt [of x d]
    by (auto split: if_splits)
qed

lemma encodeURIComponent_defined:
  "isWellFormed s \<longleftrightarrow> (\<exists>e. encodeURIComponent s = Some e)"
  by (induction s rule: encodeURIComponent.induct)
     (auto dest: uriUnescaped_not_surrogate surrogates_disjoint)

lemma templates_differ:
  "versionUrl e os a j h \<noteq> latestUrl fv rt os' a' j' h'"
  by (simp add: versionUrl_def latestUrl_def lit_def)

subsection \<open>Facts about the cache key\<close>

lemma lit_dash: "lit ''-'' = [45]"
  by (simp add: lit_def)

lemma getCacheVersionSpec_inj:
  assumes "45 \<notin> set rt \<union> set v \<union> set j \<union> set h"
    and "45 \<notin> set rt' \<union> set v' \<union> set j' \<union> set h'"
    and eq: "getCacheVersionSpec rt v j os h r = getCacheVersionSpec rt' v' j' os' h' r'"
  shows "rt = rt' \<and> v = v' \<and> j = j' \<and> h = h' \<and> r = r'"
proof -
  from eq have e1:
    "rt @ 45 # (v @ 45 # j @ 45 # h @ 45 # r) = rt' @ 45 # (v' @ 45 # j' @ 45 # h' @ 45 # r')"
    by (simp add: getCacheVersionSpec_def lit_dash)
  from assms(1,2) have n: "45 \<notin> set rt" "45 \<notin> set rt'" "45 \<notin> set v" "45 \<notin> set v'"
    "45 \<notin> set j" "45 \<notin> set j'" "45 \<notin> set h" "45 \<notin> set h'" by simp_all
  from separator_split [OF n(1) n(2) e1]
  have a: "rt = rt'" and e2: "v @ 45 # (j @ 45 # h @ 45 # r) = v' @ 45 # (j' @ 45 # h' @ 45 # r')"
    by simp_all
  from separator_split [OF n(3) n(4) e2]
  have b: "v = v'" and e3: "j @ 45 # (h @ 45 # r) = j' @ 45 # (h' @ 45 # r')" by simp_all
  from separator_split [OF n(5) n(6) e3]
  have c: "j = j'" and e4: "h @ 45 # r = h' @ 45 # r'" by simp_all
  from separator_split [OF n(7) n(8) e4] a b c show ?thesis by simp
qed

lemma alias_release_types:
  assumes "getReleaseType a = getReleaseType b" "a \<noteq> b"
  shows "45 \<notin> set a \<and> 45 \<notin> set b"
proof -
  from assms have
    "(a = lit ''releases'' \<and> b = lit ''ga'') \<or> (a = lit ''ga'' \<and> b = lit ''releases'') \<or>
     (a = lit ''nightly'' \<and> b = lit ''ea'') \<or> (a = lit ''ea'' \<and> b = lit ''nightly'')"
    by (auto simp: getReleaseType_def lit_eq_iff split: if_splits)
  then show ?thesis by (auto simp: lit_def)
qed

section \<open>The claims about the Spec Resolver and the Cache Key Builder\<close>

text \<open>
  C1, as stated: two requests that are equal after alias normalization always get the
  same cache key. This fails: \<^verbatim>\<open>downloadJavaBinary\<close> hands the raw
  \<^verbatim>\<open>release_type\<close> and \<^verbatim>\<open>version\<close> to \<open>getCacheVersionSpec\<close>, which
  normalizes nothing. The release types \<^verbatim>\<open>"releases"\<close> and \<^verbatim>\<open>"ga"\<close> have the
  same canonical value and give two different keys.
\<close>

theorem cache_key_alias_counterexample:
  "getReleaseType (lit ''releases'') = getReleaseType (lit ''ga'') \<and>
   getCacheVersionSpec (lit ''releases'') (lit ''11'') (lit ''hotspot'') (lit ''linux'')
     (lit ''normal'') (lit ''latest'')
   \<noteq> getCacheVersionSpec (lit ''ga'') (lit ''11'') (lit ''hotspot'') (lit ''linux'')
     (lit ''normal'') (lit ''latest'')"
  by (simp add: getReleaseType_def getCacheVersionSpec_def lit_def)

text \<open>
  C1, amended: for every pair of install requests that are equal after alias
  normalization (release types with the same canonical value; the same implementation,
  heap size and release), the two cache keys are identical exactly when the raw release
  types and the raw versions are identical strings, whatever the \<open>os\<close> argument. The
  key is built from the raw fields and no normalization is applied to them: two raw
  spellings of one request get two keys.
\<close>

theorem cache_key_raw_fields:
  "getReleaseType rt1 = getReleaseType rt2 \<Longrightarrow>
   (getCacheVersionSpec rt1 v1 j os1 h r = getCacheVersionSpec rt2 v2 j os2 h r \<longleftrightarrow>
    rt1 = rt2 \<and> v1 = v2)"
proof (cases "rt1 = rt2")
  case True
  then show ?thesis by (simp add: getCacheVersionSpec_def)
next
  case False
  assume "getReleaseType rt1 = getReleaseType rt2"
  with False have n: "45 \<notin> set rt1" "45 \<notin> set rt2"
    using alias_release_types [of rt1 rt2] by simp_all
  have "getCacheVersionSpec rt1 v1 j os1 h r \<noteq> getCacheVersionSpec rt2 v2 j os2 h r"
  proof
    assume "getCacheVersionSpec rt1 v1 j os1 h r = getCacheVersionSpec rt2 v2 j os2 h r"
    then have "rt1 @ 45 # (v1 @ 45 # j @ 45 # h @ 45 # r) = rt2 @ 45 # (v2 @ 45 # j @ 45 # h @ 45 # r)"
      by (simp add: getCacheVersionSpec_def lit_dash)
    from separator_split [OF n this] False show False by simp
  qed
  with False show ?thesis by simp
qed

theorem cache_key_raw_fields_witness:
  "getReleaseType (lit ''nightly'') = getReleaseType (lit ''ea'') \<and>
   getFeatureVersion (lit ''openjdk11'') = getFeatureVersion (lit ''11'') \<and>
   getCacheVersionSpec (lit ''nightly'') (lit ''openjdk11'') (lit ''hotspot'') (lit ''linux'')
     (lit ''normal'') (lit ''latest'')
   \<noteq> getCacheVersionSpec (lit ''ea'') (lit ''11'') (lit ''hotspot'') (lit ''linux'')
     (lit ''normal'') (lit ''latest'') \<and>
   getCacheVersionSpec (lit ''releases'') (lit ''openjdk11'') (lit ''hotspot'') (lit ''linux'')
     (lit ''normal'') (lit ''latest'')
   = getCacheVersionSpec (lit ''releases'') (lit ''openjdk11'') (lit ''hotspot'') (lit ''windows'')
     (lit ''normal'') (lit ''latest'')"
proof -
  have a: "getReleaseType (lit ''nightly'') = getReleaseType (lit ''ea'')"
    by (simp add: getReleaseType_def lit_eq_iff)
  have b: "getFeatureVersion (lit ''openjdk11'') = getFeatureVersion (lit ''11'')"
    by (simp add: getFeatureVersion_def lit_def)
  have ne: "lit ''nightly'' \<noteq> lit ''ea''" by (simp add: lit_eq_iff)
  from cache_key_raw_fields [OF a, of "lit ''openjdk11''" "lit ''hotspot''" "lit ''linux''"
      "lit ''normal''" "lit ''latest''" "lit ''11''" "lit ''linux''"] ne
  have 1: "getCacheVersionSpec (lit ''nightly'') (lit ''openjdk11'') (lit ''hotspot'') (lit ''linux'')
     (lit ''normal'') (lit ''latest'')
   \<noteq> getCacheVersionSpec (lit ''ea'') (lit ''11'') (lit ''hotspot'') (lit ''linux'')
     (lit ''normal'') (lit ''latest'')" by simp
  from cache_key_raw_fields [OF refl, of "lit ''releases''" "lit ''openjdk11''" "lit ''hotspot''"
      "lit ''linux''" "lit ''normal''" "lit ''latest''" "lit ''openjdk11''" "lit ''windows''"]
  have 2: "getCacheVersionSpec (lit ''releases'') (lit ''openjdk11'') (lit ''hotspot'') (lit ''linux'')
     (lit ''normal'') (lit ''latest'')
   = getCacheVersionSpec (lit ''releases'') (lit ''openjdk11'') (lit ''hotspot'') (lit ''windows'')
     (lit ''normal'') (lit ''latest'')" by simp
  from a b 1 2 show ?thesis by blast
qed

text \<open>
  C4, as stated: the cache key does not depend on the architecture and no two distinct
  normalized tuples get the same key. The second half fails: the fields are joined with
  \<^verbatim>\<open>-\<close>, a character they may contain themselves (the release tag
  \<^verbatim>\<open>jdk-11.0.4+11.4\<close> of the action's documentation does). Two tuples that differ
  in heap size and release, both canonical, share one key.
\<close>

theorem cache_key_collision:
  "(lit ''normal-jdk'', lit ''11'') \<noteq> (lit ''normal'', lit ''jdk-11'') \<and>
   getReleaseType (lit ''ga'') = lit ''ga'' \<and> getFeatureVersion (lit ''11'') = lit ''11'' \<and>
   getCacheVersionSpec (lit ''ga'') (lit ''11'') (lit ''hotspot'') (lit ''linux'')
     (lit ''normal-jdk'') (lit ''11'')
   = getCacheVersionSpec (lit ''ga'') (lit ''11'') (lit ''hotspot'') (lit ''linux'')
     (lit ''normal'') (lit ''jdk-11'')"
  by (simp add: getCacheVersionSpec_def getReleaseType_def getFeatureVersion_def lit_def)

text \<open>
  C4, amended: the cache key does not depend on the architecture (which is not among
  the arguments of \<open>getCacheVersionSpec\<close>) nor on the \<open>os\<close> argument, and it is
  injective on the tuples whose release type, version, implementation and heap size
  contain no \<^verbatim>\<open>-\<close> (code unit 45): two such tuples have the same key exactly when
  all five fields are equal. The release may contain any character.
\<close>

theorem cache_key_injective_without_dash:
  "getCacheVersionSpec rt v j os h r = getCacheVersionSpec rt v j os' h r \<and>
   (45 \<notin> set rt \<union> set v \<union> set j \<union> set h \<and> 45 \<notin> set rt' \<union> set v' \<union> set j' \<union> set h' \<longrightarrow>
    (getCacheVersionSpec rt v j os h r = getCacheVersionSpec rt' v' j' os' h' r' \<longleftrightarrow>
     rt = rt' \<and> v = v' \<and> j = j' \<and> h = h' \<and> r = r'))"
proof -
  have indep: "getCacheVersionSpec rt v j os h r = getCacheVersionSpec rt v j os' h r"
    by (simp add: getCacheVersionSpec_def)
  have same: "getCacheVersionSpec rt v j os h r = getCacheVersionSpec rt' v' j' os' h' r'"
    if "rt = rt' \<and> v = v' \<and> j = j' \<and> h = h' \<and> r = r'"
    using that by (simp add: getCacheVersionSpec_def)
  have inj: "rt = rt' \<and> v = v' \<and> j = j' \<and> h = h' \<and> r = r'"
    if "45 \<notin> set rt \<union> set v \<union> set j \<union> set h" "45 \<notin> set rt' \<union> set v' \<union> set j' \<union> set h'"
       "getCacheVersionSpec rt v j os h r = getCacheVersionSpec rt' v' j' os' h' r'"
    using that by (rule getCacheVersionSpec_inj)
  from indep same inj show ?thesis by blast
qed

theorem cache_key_injective_without_dash_witness:
  "45 \<notin> set (lit ''ga'') \<union> set (lit ''11'') \<union> set (lit ''hotspot'') \<union> set (lit ''normal'') \<and>
   45 \<notin> set (lit ''ea'') \<union> set (lit ''11'') \<union> set (lit ''hotspot'') \<union> set (lit ''normal'') \<and>
   getCacheVersionSpec (lit ''ga'') (lit ''11'') (lit ''hotspot'') (lit ''linux'')
     (lit ''normal'') (lit ''jdk-11.0.4+11.4'')
   \<noteq> getCacheVersionSpec (lit ''ea'') (lit ''11'') (lit ''hotspot'') (lit ''mac'')
     (lit ''normal'') (lit ''jdk-11.0.4+11.4'')"
proof -
  have h1: "45 \<notin> set (lit ''ga'') \<union> set (lit ''11'') \<union> set (lit ''hotspot'') \<union> set (lit ''normal'')"
    by (simp add: lit_def)
  have h2: "45 \<notin> set (lit ''ea'') \<union> set (lit ''11'') \<union> set (lit ''hotspot'') \<union> set (lit ''normal'')"
    by (simp add: lit_def)
  have ne: "lit ''ga'' \<noteq> lit ''ea''" by (simp add: lit_eq_iff)
  from cache_key_injective_without_dash [of "lit ''ga''" "lit ''11''" "lit ''hotspot''"
     "lit ''linux''" "lit ''normal''" "lit ''jdk-11.0.4+11.4''" "lit ''mac''" "lit ''ea''"
     "lit ''11''" "lit ''hotspot''" "lit ''normal''" "lit ''jdk-11.0.4+11.4''"]
    h1 h2 ne
  show ?thesis by blast
qed

text \<open>
  C7, as stated: \<open>getFeatureVersion\<close> strips a prefix \<^verbatim>\<open>openjdk\<close> and returns
  any other string unchanged. The second half fails: \<^verbatim>\<open>replace\<close> with a string
  pattern removes the first occurrence wherever it is, so a string that does not start
  with \<^verbatim>\<open>openjdk\<close> but contains it is changed.
\<close>

theorem getFeatureVersion_inner_occurrence:
  "\<not> prefix (lit ''openjdk'') (lit ''11openjdk'') \<and>
   getFeatureVersion (lit ''11openjdk'') \<noteq> lit ''11openjdk''"
  by (simp add: getFeatureVersion_def lit_def)

text \<open>
  C7, amended: \<open>getFeatureVersion\<close> removes the first occurrence of the literal
  \<^verbatim>\<open>openjdk\<close>, wherever it stands: a prefix \<^verbatim>\<open>openjdk\<close> is stripped, a string
  that does not contain \<^verbatim>\<open>openjdk\<close> is returned unchanged, and in general the
  leftmost occurrence is cut out and the rest kept.
\<close>

theorem getFeatureVersion_first_occurrence:
  "getFeatureVersion (lit ''openjdk'' @ s) = s \<and>
   ((\<nexists>a b. v = a @ lit ''openjdk'' @ b) \<longrightarrow> getFeatureVersion v = v) \<and>
   ((\<forall>a' b'. a @ lit ''openjdk'' @ b = a' @ lit ''openjdk'' @ b' \<longrightarrow> length a \<le> length a') \<longrightarrow>
      getFeatureVersion (a @ lit ''openjdk'' @ b) = a @ b)"
  unfolding getFeatureVersion_def
  using String_replace_prefix [of "lit ''openjdk''" "[]" s]
        String_replace_absent [of v "lit ''openjdk''" "[]"]
        String_replace_first [of a "lit ''openjdk''" b "[]"]
  by simp

theorem getFeatureVersion_first_occurrence_witness:
  "(\<nexists>a b. lit ''11'' = a @ lit ''openjdk'' @ b) \<and>
   getFeatureVersion (lit ''11'') = lit ''11'' \<and>
   getFeatureVersion (lit ''11'' @ lit ''openjdk'' @ lit ''-jre'') = lit ''11'' @ lit ''-jre''"
proof -
  have h1: "\<nexists>a b. lit ''11'' = a @ lit ''openjdk'' @ b"
  proof
    assume "\<exists>a b. lit ''11'' = a @ lit ''openjdk'' @ b"
    then obtain a b where "lit ''11'' = a @ lit ''openjdk'' @ b" by blast
    then have "length (lit ''11'') = length (a @ lit ''openjdk'' @ b)" by simp
    then show False by (simp add: lit_def)
  qed
  have h2: "\<forall>a' b'. lit ''11'' @ lit ''openjdk'' @ lit ''-jre'' = a' @ lit ''openjdk'' @ b' \<longrightarrow>
              length (lit ''11'') \<le> length a'"
  proof (intro allI impI)
    fix a' b'
    assume e: "lit ''11'' @ lit ''openjdk'' @ lit ''-jre'' = a' @ lit ''openjdk'' @ b'"
    show "length (lit ''11'') \<le> length a'"
    proof (cases a')
      case Nil
      with e show ?thesis by (simp add: lit_def)
    next
      case c1: (Cons x xs)
      show ?thesis
      proof (cases xs)
        case Nil
        with c1 e show ?thesis by (simp add: lit_def)
      next
        case (Cons y ys)
        with c1 show ?thesis by (simp add: lit_def)
      qed
    qed
  qed
  from getFeatureVersion_first_occurrence [of "[]" "lit ''11''" "lit ''11''" "lit ''-jre''"] h1 h2
  show ?thesis by blast
qed

text \<open>
  C8, as stated: the latest template exactly when the release is \<^verbatim>\<open>latest\<close>, and
  for any other release the exact-release template with the release percent-encoded.
  The second half fails for a release that is not well-formed UTF-16:
  \<^verbatim>\<open>encodeURIComponent\<close> throws \<^verbatim>\<open>URIError\<close> on a lone surrogate, and
  \<open>getAdoptOpenJdkUrl\<close> returns no URL at all.
\<close>

theorem getAdoptOpenJdkUrl_lone_surrogate:
  "[55296] \<noteq> lit ''latest'' \<and>
   getAdoptOpenJdkUrl (lit ''ga'') (lit ''11'') (lit ''hotspot'') (lit ''linux'') (lit ''x64'')
     (lit ''normal'') [55296] = Inl (URIError (lit ''URI malformed''))"
  by (simp add: getAdoptOpenJdkUrl_def lit_def isLeadingSurrogate_def uriUnescaped_def)

text \<open>
  C8, amended: \<open>getAdoptOpenJdkUrl\<close> returns the latest-template URL exactly when
  the release is \<^verbatim>\<open>latest\<close>; for any other release that is well-formed UTF-16 it
  returns the exact-release-template URL holding the percent-encoded release, every
  code unit of which is an unreserved character or \<^verbatim>\<open>%\<close> (code unit 37), so that
  \<^verbatim>\<open>+\<close> cannot occur in it. For a release with a lone surrogate the call throws
  \<^verbatim>\<open>URIError\<close>.
\<close>

theorem getAdoptOpenJdkUrl_templates:
  "(release = lit ''latest'' \<longrightarrow>
      getAdoptOpenJdkUrl release_type version jvm_impl os arch heap_size release =
        Inr (latestUrl (getFeatureVersion version) (getReleaseType release_type) os arch
               jvm_impl heap_size)) \<and>
   (release \<noteq> lit ''latest'' \<and> isWellFormed release \<longrightarrow>
      (\<exists>release_name.
         encodeURIComponent release = Some release_name \<and>
         (\<forall>c\<in>set release_name. uriUnescaped c \<or> c = 37) \<and>
         getAdoptOpenJdkUrl release_type version jvm_impl os arch heap_size release =
           Inr (versionUrl release_name os arch jvm_impl heap_size))) \<and>
   (release \<noteq> lit ''latest'' \<longrightarrow>
      (\<forall>fv rt os' arch' jvm_impl' heap_size'.
         getAdoptOpenJdkUrl release_type version jvm_impl os arch heap_size release \<noteq>
           Inr (latestUrl fv rt os' arch' jvm_impl' heap_size'))) \<and>
   (release \<noteq> lit ''latest'' \<and> \<not> isWellFormed release \<longrightarrow>
      getAdoptOpenJdkUrl release_type version jvm_impl os arch heap_size release =
        Inl (URIError (lit ''URI malformed'')))"
proof (intro conjI impI)
  assume "release = lit ''latest''"
  then show "getAdoptOpenJdkUrl release_type version jvm_impl os arch heap_size release =
        Inr (latestUrl (getFeatureVersion version) (getReleaseType release_type) os arch
               jvm_impl heap_size)"
    by (simp add: getAdoptOpenJdkUrl_def)
next
  assume a: "release \<noteq> lit ''latest'' \<and> isWellFormed release"
  then obtain e where e: "encodeURIComponent release = Some e"
    using encodeURIComponent_defined [of release] by blast
  have "\<forall>c\<in>set e. uriUnescaped c \<or> c = 37"
    using encodeURIComponent_safe [OF e] by blast
  moreover from a e have "getAdoptOpenJdkUrl release_type version jvm_impl os arch heap_size release =
           Inr (versionUrl e os arch jvm_impl heap_size)"
    by (simp add: getAdoptOpenJdkUrl_def)
  ultimately show "\<exists>release_name.
         encodeURIComponent release = Some release_name \<and>
         (\<forall>c\<in>set release_name. uriUnescaped c \<or> c = 37) \<and>
         getAdoptOpenJdkUrl release_type version jvm_impl os arch heap_size release =
           Inr (versionUrl release_name os arch jvm_impl heap_size)"
    using e by blast
next
  assume "release \<noteq> lit ''latest''"
  then show "\<forall>fv rt os' arch' jvm_impl' heap_size'.
         getAdoptOpenJdkUrl release_type version jvm_impl os arch heap_size release \<noteq>
           Inr (latestUrl fv rt os' arch' jvm_impl' heap_size')"
    by (auto simp: getAdoptOpenJdkUrl_def templates_differ split: option.splits)
next
  assume a: "release \<noteq> lit ''latest'' \<and> \<not> isWellFormed release"
  then have "encodeURIComponent release = None"
    using encodeURIComponent_defined [of release] by (cases "encodeURIComponent release") auto
  with a show "getAdoptOpenJdkUrl release_type version jvm_impl os arch heap_size release =
        Inl (URIError (lit ''URI malformed''))"
    by (simp add: getAdoptOpenJdkUrl_def)
qed

theorem getAdoptOpenJdkUrl_templates_witness:
  "lit ''jdk-11.0.4+11.4'' \<noteq> lit ''latest'' \<and> isWellFormed (lit ''jdk-11.0.4+11.4'') \<and>
   getAdoptOpenJdkUrl (lit ''ga'') (lit ''openjdk11'') (lit ''hotspot'') (lit ''linux'') (lit ''x64'')
     (lit ''normal'') (lit ''jdk-11.0.4+11.4'') =
   Inr (lit ''https://api.adoptopenjdk.net/v3/binary/version/jdk-11.0.4%2B11.4/linux/x64/jdk/hotspot/normal/adoptopenjdk'') \<and>
   getAdoptOpenJdkUrl (lit ''releases'') (lit ''openjdk11'') (lit ''hotspot'') (lit ''linux'') (lit ''x64'')
     (lit ''normal'') (lit ''latest'') =
   Inr (lit ''https://api.adoptopenjdk.net/v3/binary/latest/11/ga/linux/x64/jdk/hotspot/normal/adoptopenjdk'') \<and>
   getAdoptOpenJdkUrl (lit ''ga'') (lit ''11'') (lit ''hotspot'') (lit ''linux'') (lit ''x64'')
     (lit ''normal'') (lit ''jdk'' @ [56320]) = Inl (URIError (lit ''URI malformed''))"
proof -
  have ne3: "lit ''jdk'' @ [56320] \<noteq> lit ''latest''" by (simp add: lit_def)
  have nwf: "\<not> isWellFormed (lit ''jdk'' @ [56320])"
    by (simp add: lit_def isLeadingSurrogate_def isTrailingSurrogate_def)
  from getAdoptOpenJdkUrl_templates [of "lit ''jdk'' @ [56320]" "lit ''ga''" "lit ''11''"
      "lit ''hotspot''" "lit ''linux''" "lit ''x64''" "lit ''normal''"] ne3 nwf
  have 3: "getAdoptOpenJdkUrl (lit ''ga'') (lit ''11'') (lit ''hotspot'') (lit ''linux'') (lit ''x64'')
     (lit ''normal'') (lit ''jdk'' @ [56320]) = Inl (URIError (lit ''URI malformed''))"
    by blast
  have ne: "lit ''jdk-11.0.4+11.4'' \<noteq> lit ''latest''" by (simp add: lit_eq_iff)
  have enc: "encodeURIComponent (lit ''jdk-11.0.4+11.4'') = Some (lit ''jdk-11.0.4%2B11.4'')"
    by (simp add: lit_def uriUnescaped_def isLeadingSurrogate_def isTrailingSurrogate_def
          escapeCodePoint_def utf8_def percentEscape_def hexDigit_def)
  then have wf: "isWellFormed (lit ''jdk-11.0.4+11.4'')"
    using encodeURIComponent_defined [of "lit ''jdk-11.0.4+11.4''"] by blast
  have v: "versionUrl (lit ''jdk-11.0.4%2B11.4'') (lit ''linux'') (lit ''x64'') (lit ''hotspot'') (lit ''normal'')
     = lit ''https://api.adoptopenjdk.net/v3/binary/version/jdk-11.0.4%2B11.4/linux/x64/jdk/hotspot/normal/adoptopenjdk''"
    by (simp add: versionUrl_def lit_def)
  have l: "latestUrl (getFeatureVersion (lit ''openjdk11'')) (getReleaseType (lit ''releases'')) (lit ''linux'') (lit ''x64'') (lit ''hotspot'') (lit ''normal'')
     = lit ''https://api.adoptopenjdk.net/v3/binary/latest/11/ga/linux/x64/jdk/hotspot/normal/adoptopenjdk''"
    by (simp add: latestUrl_def getFeatureVersion_def getReleaseType_def lit_def)
  from getAdoptOpenJdkUrl_templates [of "lit ''jdk-11.0.4+11.4''" "lit ''ga''" "lit ''openjdk11''" "lit ''hotspot''" "lit ''linux''" "lit ''x64''" "lit ''normal''"]
    ne wf enc v
  have 1: "getAdoptOpenJdkUrl (lit ''ga'') (lit ''openjdk11'') (lit ''hotspot'') (lit ''linux'') (lit ''x64'')
     (lit ''normal'') (lit ''jdk-11.0.4+11.4'') =
   Inr (lit ''https://api.adoptopenjdk.net/v3/binary/version/jdk-11.0.4%2B11.4/linux/x64/jdk/hotspot/normal/adoptopenjdk'')"
    by auto
  from getAdoptOpenJdkUrl_templates [of "lit ''latest''" "lit ''releases''" "lit ''openjdk11''" "lit ''hotspot''" "lit ''linux''" "lit ''x64''" "lit ''normal''"] l
  have 2: "getAdoptOpenJdkUrl (lit ''releases'') (lit ''openjdk11'') (lit ''hotspot'') (lit ''linux'') (lit ''x64'')
     (lit ''normal'') (lit ''latest'') =
   Inr (lit ''https://api.adoptopenjdk.net/v3/binary/latest/11/ga/linux/x64/jdk/hotspot/normal/adoptopenjdk'')"
    by simp
  from ne wf 1 2 3 show ?thesis by blast
qed

section \<open>The claims about the Retrying Fetcher\<close>

subsection \<open>Facts about numbers\<close>

lemma roundInteger_exact: "\<bar>x\<bar> < 2 ^ 53 \<Longrightarrow> roundInteger x = x"
  by (auto simp: roundInteger_def roundTiesToEven_def)

lemma minus_one_exact:
  "0 < R \<Longrightarrow> R \<le> 9007199254740992 \<Longrightarrow> minus_one (Integer R) = Integer (R - 1)"
  by (simp add: roundInteger_exact)

lemma bitLength_lower: "0 < n \<Longrightarrow> 2 ^ (bitLength n - 1) \<le> n"
proof (induction n rule: bitLength.induct)
  case (1 n)
  show ?case
  proof (cases "n div 2 = 0")
    case True
    with 1(2) have "n = 1" by arith
    then show ?thesis by (simp add: bitLength.simps)
  next
    case False
    then have pos: "0 < n div 2" by simp
    with 1 have IH: "2 ^ (bitLength (n div 2) - 1) \<le> n div 2" by simp
    from pos have b: "0 < bitLength (n div 2)" by (subst bitLength.simps) simp
    from 1(2) have "bitLength n = Suc (bitLength (n div 2))" by (subst bitLength.simps) simp
    then have "(2::nat) ^ (bitLength n - 1) = 2 * 2 ^ (bitLength (n div 2) - 1)"
      using b by (cases "bitLength (n div 2)") simp_all
    also have "\<dots> \<le> 2 * (n div 2)" using IH by simp
    also have "\<dots> \<le> n" by simp
    finally show ?thesis .
  qed
qed

lemma roundTiesToEven_pos:
  assumes "0 < a"
  shows "0 < roundTiesToEven a"
proof (cases "a < 2 ^ 53")
  case True
  with assms show ?thesis by (simp add: roundTiesToEven_def)
next
  case False
  let ?q = "bitLength a - 53"
  have "(2::nat) ^ ?q \<le> 2 ^ (bitLength a - 1)" by (rule power_increasing) simp_all
  also have "\<dots> \<le> a" using assms by (rule bitLength_lower)
  finally have "2 ^ ?q \<le> a" .
  then have "0 < a div 2 ^ ?q" by (simp add: div_greater_zero_iff)
  then show ?thesis using False by (simp add: roundTiesToEven_def Let_def)
qed

lemma minus_one_negative:
  assumes "R < 0"
  shows "\<exists>R'. minus_one (Integer R) = Integer R' \<and> R' < 0"
proof -
  from assms have "0 < nat (- (R - 1))" by simp
  then have "0 < roundTiesToEven (nat (- (R - 1)))" by (rule roundTiesToEven_pos)
  with assms show ?thesis by (simp add: roundInteger_def)
qed

lemma bitLength_54: "bitLength 9007199254740995 = 54"
  by (simp add: bitLength.simps)

lemma minus_one_rounds_back: "minus_one (Integer 9007199254740996) = Integer 9007199254740996"
  by (simp add: roundInteger_def roundTiesToEven_def bitLength_54)

subsection \<open>Facts about \<open>retry\<close>\<close>

lemma retry_success:
  "fst (fn w) = Inr v \<Longrightarrow> retry api fn R i e w = Some (Inr v, snd (fn w))"
  by (subst retry.simps) (cases "fn w", simp)

lemma retry_exhausted:
  "fst (fn w) = Inl err \<Longrightarrow> \<not> ToBoolean R \<Longrightarrow>
   retry api fn R i e w = Some (Inl max_retries_error, snd (fn w))"
  by (subst retry.simps) (cases "fn w", simp)

lemma retry_again:
  "fst (fn w) = Inl err \<Longrightarrow> ToBoolean R \<Longrightarrow>
   retry api fn R i e w =
     retry api fn (minus_one R) (if e then times_two i else i) e
       (announce_retry api err R i (snd (fn w)))"
  by (subst retry.simps) (cases "fn w", simp)

lemma fst_fetch: "fst (fetch f w) = fst (f (ext w))"
  by (simp add: fetch_def call_def split: prod.splits)









lemma retry_returns:
  "int k \<le> 9007199254740992 \<Longrightarrow> \<exists>y. retry api fn (Integer (int k)) i e w = Some y"
proof (induction k arbitrary: i w)
  case 0
  show ?case
  proof (cases "fst (fn w)")
    case (Inl err)
    then show ?thesis using retry_exhausted [of fn w err "Integer 0" api i e] by simp
  next
    case (Inr v)
    then show ?thesis using retry_success [of fn w v api "Integer 0" i e] by simp
  qed
next
  case (Suc k)
  show ?case
  proof (cases "fst (fn w)")
    case (Inl err)
    from Suc.prems have m: "minus_one (Integer (int (Suc k))) = Integer (int k)"
      using minus_one_exact [of "int (Suc k)"] by simp
    from Inl have "retry api fn (Integer (int (Suc k))) i e w =
      retry api fn (minus_one (Integer (int (Suc k)))) (if e then times_two i else i) e
        (announce_retry api err (Integer (int (Suc k))) i (snd (fn w)))"
      by (intro retry_again) simp_all
    moreover from Suc.prems have "int k \<le> 9007199254740992" by simp
    ultimately show ?thesis using Suc.IH m by simp
  next
    case (Inr v)
    then show ?thesis using retry_success [of fn w v api "Integer (int (Suc k))" i e] by simp
  qed
qed

text \<open>
  A set of budgets that are all true and that the decrement does not leave: from a
  budget in it, a callback that always fails is retried for ever.
\<close>

lemma retry_diverges:
  assumes closed: "\<And>x. x \<in> S \<Longrightarrow> ToBoolean x \<and> minus_one x \<in> S"
    and fails: "\<forall>w. isl (fst (fn w))"
    and R: "R \<in> S"
  shows "retry api fn R i e w = None"
proof (cases "retry api fn R i e w")
  case None
  then show ?thesis .
next
  case (Some y)
  have "\<not> (R \<in> S \<and> (\<forall>w. isl (fst (fn w))))"
  proof (rule retry.raw_induct
      [where P = "\<lambda>api fn R i e w y. \<not> (R \<in> S \<and> (\<forall>w. isl (fst (fn w))))", OF _ Some])
    fix retry' :: "'a node_api \<Rightarrow> ('a world \<Rightarrow> (error + jsstring) \<times> 'a world) \<Rightarrow> number \<Rightarrow> number \<Rightarrow>
        bool \<Rightarrow> 'a world \<Rightarrow> ((error + jsstring) \<times> 'a world) option"
    fix api fn R i e w y
    assume IH: "\<And>api fn R i e w y. retry' api fn R i e w = Some y \<Longrightarrow>
        \<not> (R \<in> S \<and> (\<forall>w. isl (fst (fn w))))"
    assume step: "(case fn w of
          (Inl err, w') \<Rightarrow>
            if ToBoolean R then
              retry' api fn (minus_one R) (if e then times_two i else i) e
                (announce_retry api err R i w')
            else Some (Inl max_retries_error, w')
        | (Inr val, w') \<Rightarrow> Some (Inr val, w')) = Some y"
    show "\<not> (R \<in> S \<and> (\<forall>w. isl (fst (fn w))))"
    proof
      assume a: "R \<in> S \<and> (\<forall>w. isl (fst (fn w)))"
      then have "isl (fst (fn w))" by blast
      then obtain err w1 where fw: "fn w = (Inl err, w1)"
        by (cases "fn w"; cases "fst (fn w)") auto
      from a closed have t: "ToBoolean R" and m: "minus_one R \<in> S" by blast+
      from fw t step have "retry' api fn (minus_one R) (if e then times_two i else i) e
          (announce_retry api err R i w1) = Some y" by simp
      from IH [OF this] a m show False by simp
    qed
  qed
  with fails R show ?thesis by blast
qed






text \<open>
  C6, as stated: with a budget of zero and a first attempt that fails, \<open>retry\<close> makes
  one attempt and propagates that attempt's error at once. The error is another one:
  the \<^verbatim>\<open>catch\<close> block drops the error of the attempt and throws a new
  \<^verbatim>\<open>Error('Unable to download JDK, max retries reached')\<close>. Here the attempt
  fails with \<^verbatim>\<open>ETIMEDOUT\<close>.
\<close>

theorem retry_discards_attempt_error:
  "fst (fetch (flaky 1) \<lparr>ext = jdk_disk, trace = []\<rparr>) = Inl (Error (lit ''ETIMEDOUT'')) \<and>
   map_option fst
     (retry linux_host (fetch (flaky 1)) (Integer 0) (Integer 1000) False
        \<lparr>ext = jdk_disk, trace = []\<rparr>)
     = Some (Inl (Error (lit ''Unable to download JDK, max retries reached''))) \<and>
   Error (lit ''Unable to download JDK, max retries reached'') \<noteq> Error (lit ''ETIMEDOUT'')"
proof -
  let ?w = "\<lparr>ext = jdk_disk, trace = []\<rparr>"
  have f: "fst (fetch (flaky 1) ?w) = Inl (Error (lit ''ETIMEDOUT''))"
    by (simp add: fst_fetch flaky_def jdk_disk_def)
  from retry_exhausted [of "fetch (flaky 1)" ?w "Error (lit ''ETIMEDOUT'')" "Integer 0"
      linux_host "Integer 1000" False] f
  have "map_option fst (retry linux_host (fetch (flaky 1)) (Integer 0) (Integer 1000) False ?w)
     = Some (Inl (Error (lit ''Unable to download JDK, max retries reached'')))"
    by (simp add: max_retries_error_def)
  moreover have "Error (lit ''Unable to download JDK, max retries reached'') \<noteq> Error (lit ''ETIMEDOUT'')"
    by (simp add: lit_eq_iff)
  ultimately show ?thesis using f by simp
qed

text \<open>
  C6, amended: with a budget of zero and a first attempt that fails, \<open>retry\<close> makes
  exactly one attempt and fails at once with the max-retries error (the attempt's own
  error is dropped): the world is left as that one call left it, with no timer and no
  warning.
\<close>

theorem retry_zero_budget:
  "isl (fst (f (ext w))) \<Longrightarrow>
   retry api (fetch f) (Integer 0) interval exponential w =
     Some (Inl max_retries_error,
           w\<lparr>ext := snd (f (ext w)), trace := trace w @ [Invoke ''fn'' []]\<rparr>)"
proof -
  assume "isl (fst (f (ext w)))"
  then obtain err where "fst (fetch f w) = Inl err"
    by (cases "fst (f (ext w))") (auto simp: fst_fetch)
  then have "retry api (fetch f) (Integer 0) interval exponential w =
      Some (Inl max_retries_error, snd (fetch f w))"
    by (rule retry_exhausted) simp
  then show ?thesis by (simp add: fetch_def call_def split: prod.splits)
qed

theorem retry_zero_budget_witness:
  "retry linux_host (fetch (flaky 1)) (Integer 0) (Integer 1000) True
     \<lparr>ext = jdk_disk, trace = []\<rparr> =
     Some (Inl max_retries_error,
           \<lparr>ext = jdk_disk\<lparr>requests := 1\<rparr>, trace = [Invoke ''fn'' []]\<rparr>) \<and>
   delays \<lparr>ext = jdk_disk\<lparr>requests := 1\<rparr>, trace = [Invoke ''fn'' []]\<rparr> = []"
proof -
  have h: "isl (fst (flaky 1 (ext \<lparr>ext = jdk_disk, trace = []\<rparr>)))"
    by (simp add: flaky_def jdk_disk_def)
  from retry_zero_budget [of "flaky 1" "\<lparr>ext = jdk_disk, trace = []\<rparr>" linux_host "Integer 1000" True] h
  show ?thesis by (simp add: flaky_def delays_def jdk_disk_def)
qed

text \<open>
  C10, as stated: \<open>retry\<close> terminates for every budget \<open>R \<ge> 0\<close>, because each failed
  attempt decreases the budget by exactly one until it reaches zero. That decrease is
  exact only up to \<open>2^53\<close>: \<^verbatim>\<open>9007199254740996 - 1\<close> rounds back to
  \<^verbatim>\<open>9007199254740996\<close>, so with this budget and a download that always fails (the
  host has no network) the budget never reaches zero and \<open>retry\<close> does not return.
\<close>

theorem retry_budget_rounds_back:
  "(0::int) \<le> 9007199254740996 \<and>
   retry linux_host
     (call ''tc.downloadTool'' [lit ''https://api.adoptopenjdk.net/'']
        (tc_downloadTool linux_host (lit ''https://api.adoptopenjdk.net/'')))
     (Integer 9007199254740996) (Integer 1000) True \<lparr>ext = jdk_disk, trace = []\<rparr> = None"
proof -
  have "retry linux_host
     (call ''tc.downloadTool'' [lit ''https://api.adoptopenjdk.net/'']
        (tc_downloadTool linux_host (lit ''https://api.adoptopenjdk.net/'')))
     (Integer 9007199254740996) (Integer 1000) True \<lparr>ext = jdk_disk, trace = []\<rparr> = None"
  proof (rule retry_diverges [where S = "{Integer 9007199254740996}"])
    show "\<And>x. x \<in> {Integer 9007199254740996} \<Longrightarrow>
        ToBoolean x \<and> minus_one x \<in> {Integer 9007199254740996}"
      using minus_one_rounds_back by simp
    show "\<forall>w. isl (fst (call ''tc.downloadTool'' [lit ''https://api.adoptopenjdk.net/'']
        (tc_downloadTool linux_host (lit ''https://api.adoptopenjdk.net/'')) w))"
      by (simp add: call_def linux_host_def)
    show "Integer 9007199254740996 \<in> {Integer 9007199254740996}" by simp
  qed
  then show ?thesis by simp
qed

text \<open>
  C10, amended: \<open>retry\<close> returns for every integer budget \<open>0 \<le> R \<le> 2^53\<close>, on which
  each failed attempt decreases the budget by exactly one until it reaches zero,
  whatever the callback does (each call of the callback is taken to settle). The bounds
  are necessary: with a callback that always fails, \<open>retry\<close> does not return for a
  negative budget, nor for a budget other than zero that its decrement leaves unchanged
  (\<open>9007199254740996\<close> is one), nor for the budget \<^verbatim>\<open>Infinity\<close>.
\<close>

theorem retry_termination:
  "(0 \<le> R \<and> R \<le> 9007199254740992 \<longrightarrow>
      (\<exists>y. retry api fn (Integer R) interval exponential w = Some y)) \<and>
   ((\<forall>w. isl (fst (fn w))) \<and> (R < 0 \<or> (R \<noteq> 0 \<and> minus_one (Integer R) = Integer R)) \<longrightarrow>
      retry api fn (Integer R) interval exponential w = None) \<and>
   ((\<forall>w. isl (fst (fn w))) \<longrightarrow> retry api fn Infinity interval exponential w = None)"
proof (intro conjI impI)
  assume "0 \<le> R \<and> R \<le> 9007199254740992"
  then show "\<exists>y. retry api fn (Integer R) interval exponential w = Some y"
    using retry_returns [of "nat R" api fn interval exponential w] by simp
next
  assume a: "(\<forall>w. isl (fst (fn w))) \<and> (R < 0 \<or> (R \<noteq> 0 \<and> minus_one (Integer R) = Integer R))"
  then consider "R < 0" | "R \<noteq> 0 \<and> minus_one (Integer R) = Integer R" by blast
  then show "retry api fn (Integer R) interval exponential w = None"
  proof cases
    case 1
    show ?thesis
    proof (rule retry_diverges [where S = "{x. \<exists>r. x = Integer r \<and> r < 0}"])
      fix x assume "x \<in> {x. \<exists>r. x = Integer r \<and> r < 0}"
      then obtain r where r: "x = Integer r" "r < 0" by blast
      from minus_one_negative [OF r(2)] r
      show "ToBoolean x \<and> minus_one x \<in> {x. \<exists>r. x = Integer r \<and> r < 0}" by auto
    next
      from a show "\<forall>w. isl (fst (fn w))" by blast
    next
      from 1 show "Integer R \<in> {x. \<exists>r. x = Integer r \<and> r < 0}" by simp
    qed
  next
    case 2
    show ?thesis
    proof (rule retry_diverges [where S = "{Integer R}"])
      fix x assume "x \<in> {Integer R}"
      with 2 show "ToBoolean x \<and> minus_one x \<in> {Integer R}" by simp
    next
      from a show "\<forall>w. isl (fst (fn w))" by blast
    next
      show "Integer R \<in> {Integer R}" by simp
    qed
  qed
next
  assume a: "\<forall>w. isl (fst (fn w))"
  show "retry api fn Infinity interval exponential w = None"
  proof (rule retry_diverges [where S = "{Infinity}"])
    fix x assume "x \<in> {Infinity}"
    then show "ToBoolean x \<and> minus_one x \<in> {Infinity}" by simp
  next
    from a show "\<forall>w. isl (fst (fn w))" .
  next
    show "Infinity \<in> {Infinity}" by simp
  qed
qed

theorem retry_termination_witness:
  "(\<exists>y. retry linux_host (fetch (flaky 9)) (Integer 3) (Integer 1000) True
          \<lparr>ext = jdk_disk, trace = []\<rparr> = Some y) \<and>
   retry linux_host
     (call ''tc.downloadTool'' [lit ''https://api.adoptopenjdk.net/'']
        (tc_downloadTool linux_host (lit ''https://api.adoptopenjdk.net/'')))
     (Integer (- 1)) (Integer 1000) True \<lparr>ext = jdk_disk, trace = []\<rparr> = None \<and>
   retry linux_host
     (call ''tc.downloadTool'' [lit ''https://api.adoptopenjdk.net/'']
        (tc_downloadTool linux_host (lit ''https://api.adoptopenjdk.net/'')))
     Infinity (Integer 1000) True \<lparr>ext = jdk_disk, trace = []\<rparr> = None \<and>
   retry linux_host
     (call ''tc.downloadTool'' [lit ''https://api.adoptopenjdk.net/'']
        (tc_downloadTool linux_host (lit ''https://api.adoptopenjdk.net/'')))
     (Integer 9007199254740996) (Integer 500) False \<lparr>ext = jdk_disk, trace = []\<rparr> = None"
proof -
  let ?fn = "call ''tc.downloadTool'' [lit ''https://api.adoptopenjdk.net/'']
        (tc_downloadTool linux_host (lit ''https://api.adoptopenjdk.net/''))"
  let ?w = "\<lparr>ext = jdk_disk, trace = []\<rparr>"
  have a: "\<forall>w. isl (fst (?fn w))" by (simp add: call_def linux_host_def)
  from retry_termination [of 3 linux_host "fetch (flaky 9)" "Integer 1000" True ?w]
  have 1: "\<exists>y. retry linux_host (fetch (flaky 9)) (Integer 3) (Integer 1000) True ?w = Some y"
    by simp
  from retry_termination [of "- 1" linux_host ?fn "Integer 1000" True ?w] a
  have 2: "retry linux_host ?fn (Integer (- 1)) (Integer 1000) True ?w = None" by simp
  from retry_termination [of 0 linux_host ?fn "Integer 1000" True ?w] a
  have 3: "retry linux_host ?fn Infinity (Integer 1000) True ?w = None" by simp
  from retry_termination [of 9007199254740996 linux_host ?fn "Integer 500" False ?w] a
    minus_one_rounds_back
  have 4: "retry linux_host ?fn (Integer 9007199254740996) (Integer 500) False ?w = None" by simp
  from 1 2 3 4 show ?thesis by blast
qed

section \<open>The claims about the Archive Extractor, the cache and the Normalizer\<close>

lemmas linux_host_fields =
  linux_host_def IS_WINDOWS_def IS_MACOS_def disk_stat_def disk_readdir_def disk_find_def
  jdk_disk_def cached_disk_def

text \<open>
  C5, as stated: for every source path and extension, \<open>extractFiles\<close> fails with the
  unknown-compression error when the extension is not one of the four known ones, with
  a not-found error when the path does not exist, and with the directory error when
  the path is a directory. The three cases overlap and the code decides them in a fixed
  order, the result of \<^verbatim>\<open>fs.statSync\<close> first: for a directory and the unknown
  extension \<^verbatim>\<open>.rar\<close> the error is the directory error, not the unknown-compression
  error.
\<close>

theorem extractFiles_directory_before_extension:
  "lit ''.rar'' \<notin> {lit ''.tar'', lit ''.tar.gz'', lit ''.zip'', lit ''.7z''} \<and>
   fst (extractFiles linux_host (lit ''/jdk'') (lit ''.rar'') (lit ''/tmp/out'')
          \<lparr>ext = jdk_disk, trace = []\<rparr>)
   = Inl (Error (lit ''Failed to extract /jdk - it is a directory''))"
  by (simp add: extractFiles_def linux_host_fields lit_def)

text \<open>
  C5, amended: \<open>extractFiles\<close> fails, without attempting an extraction and leaving the
  world as it was,
  \<^item> with the error that \<^verbatim>\<open>fs.statSync\<close> throws when the source path does not
    exist (Node's \<^verbatim>\<open>ENOENT: no such file or directory\<close>), or with the
    \<^verbatim>\<open>it doesn't exist\<close> error should \<^verbatim>\<open>fs.statSync\<close> return nothing;
  \<^item> with the \<^verbatim>\<open>it is a directory\<close> error when the source path is a directory,
    whatever the extension;
  \<^item> with the \<^verbatim>\<open>unknown compression\<close> error when the source path exists, is not a
    directory and the extension is none of \<^verbatim>\<open>.tar\<close>, \<^verbatim>\<open>.tar.gz\<close>,
    \<^verbatim>\<open>.zip\<close>, \<^verbatim>\<open>.7z\<close>, whatever the file holds.
\<close>

theorem extractFiles_errors:
  "(fs_statSync api file (ext w) = Inl thrown \<longrightarrow>
      extractFiles api file fileEnding destinationFolder w = (Inl thrown, w)) \<and>
   (fs_statSync api file (ext w) = Inr None \<longrightarrow>
      extractFiles api file fileEnding destinationFolder w =
        (Inl (Error (lit ''Failed to extract '' @ file @ lit '' - it doesn't exist'')), w)) \<and>
   (fs_statSync api file (ext w) = Inr (Some st) \<and> isDirectory st \<longrightarrow>
      extractFiles api file fileEnding destinationFolder w =
        (Inl (Error (lit ''Failed to extract '' @ file @ lit '' - it is a directory'')), w)) \<and>
   (fs_statSync api file (ext w) = Inr (Some st) \<and> \<not> isDirectory st \<and>
    fileEnding \<notin> {lit ''.tar'', lit ''.tar.gz'', lit ''.zip'', lit ''.7z''} \<longrightarrow>
      extractFiles api file fileEnding destinationFolder w =
        (Inl (Error (lit ''Failed to extract '' @ file @ lit '' - unknown compression'')), w))"
  by (simp add: extractFiles_def)

theorem extractFiles_errors_witness:
  "extractFiles linux_host (lit ''/jdk/rt.pack'') (lit ''.rar'') (lit ''/tmp/out'')
     \<lparr>ext = jdk_disk, trace = []\<rparr>
   = (Inl (Error (lit ''Failed to extract /jdk/rt.pack - unknown compression'')),
      \<lparr>ext = jdk_disk, trace = []\<rparr>) \<and>
   extractFiles linux_host (lit ''/jdk'') (lit ''.tar.gz'') (lit ''/tmp/out'')
     \<lparr>ext = jdk_disk, trace = []\<rparr>
   = (Inl (Error (lit ''Failed to extract /jdk - it is a directory'')),
      \<lparr>ext = jdk_disk, trace = []\<rparr>) \<and>
   extractFiles linux_host (lit ''/nope'') (lit ''.tar.gz'') (lit ''/tmp/out'')
     \<lparr>ext = jdk_disk, trace = []\<rparr>
   = (Inl (Error (lit ''ENOENT: no such file or directory, stat '' @ [39] @ lit ''/nope'' @ [39])),
      \<lparr>ext = jdk_disk, trace = []\<rparr>)"
proof -
  let ?w = "\<lparr>ext = jdk_disk, trace = []\<rparr>"
  have s1: "fs_statSync linux_host (lit ''/jdk/rt.pack'') (ext ?w) = Inr (Some \<lparr>isFile = True, isDirectory = False\<rparr>)"
    by (simp add: linux_host_fields lit_def)
  have s2: "fs_statSync linux_host (lit ''/jdk'') (ext ?w) = Inr (Some \<lparr>isFile = False, isDirectory = True\<rparr>)"
    by (simp add: linux_host_fields lit_def)
  have s3: "fs_statSync linux_host (lit ''/nope'') (ext ?w) =
      Inl (Error (lit ''ENOENT: no such file or directory, stat '' @ [39] @ lit ''/nope'' @ [39]))"
    by (simp add: linux_host_fields lit_def)
  have e: "lit ''.rar'' \<notin> {lit ''.tar'', lit ''.tar.gz'', lit ''.zip'', lit ''.7z''}"
    by (simp add: lit_eq_iff)
  have m1: "lit ''Failed to extract '' @ lit ''/jdk/rt.pack'' @ lit '' - unknown compression''
      = lit ''Failed to extract /jdk/rt.pack - unknown compression''" by (simp add: lit_def)
  have m2: "lit ''Failed to extract '' @ lit ''/jdk'' @ lit '' - it is a directory''
      = lit ''Failed to extract /jdk - it is a directory''" by (simp add: lit_def)
  from extractFiles_errors [of linux_host "lit ''/jdk/rt.pack''" ?w _ "lit ''.rar''" "lit ''/tmp/out''"
      "\<lparr>isFile = True, isDirectory = False\<rparr>"] s1 e m1
  have 1: "extractFiles linux_host (lit ''/jdk/rt.pack'') (lit ''.rar'') (lit ''/tmp/out'') ?w
   = (Inl (Error (lit ''Failed to extract /jdk/rt.pack - unknown compression'')), ?w)" by simp
  from extractFiles_errors [of linux_host "lit ''/jdk''" ?w _ "lit ''.tar.gz''" "lit ''/tmp/out''"
      "\<lparr>isFile = False, isDirectory = True\<rparr>"] s2 m2
  have 2: "extractFiles linux_host (lit ''/jdk'') (lit ''.tar.gz'') (lit ''/tmp/out'') ?w
   = (Inl (Error (lit ''Failed to extract /jdk - it is a directory'')), ?w)" by simp
  from extractFiles_errors [of linux_host "lit ''/nope''" ?w
      "Error (lit ''ENOENT: no such file or directory, stat '' @ [39] @ lit ''/nope'' @ [39])"
      "lit ''.tar.gz''" "lit ''/tmp/out''"] s3
  have 3: "extractFiles linux_host (lit ''/nope'') (lit ''.tar.gz'') (lit ''/tmp/out'') ?w
   = (Inl (Error (lit ''ENOENT: no such file or directory, stat '' @ [39] @ lit ''/nope'' @ [39])), ?w)"
    by simp
  from 1 2 3 show ?thesis by blast
qed

text \<open>
  C9: when the probe \<^verbatim>\<open>tc.find\<close> returns a path (a string that is not empty),
  \<open>downloadJavaBinary\<close> returns normally and its whole effect is one debug message and
  the three publications made from the cached path: \<^verbatim>\<open>JAVA_HOME\<close>,
  \<^verbatim>\<open>JAVA_HOME_<version>_<arch>\<close> and the \<^verbatim>\<open>bin\<close> directory on the search
  path. The trace gains no library call (no download, no extraction, no
  \<^verbatim>\<open>tc.cacheDir\<close>) and the state of the collaborators, the cache entry included, is
  the one before the call.
\<close>

theorem cache_hit_only_publishes:
  "tc_find api toolName (getCacheVersionSpec release_type version jvm_impl os heap_size release)
     arch (ext w) = toolPath \<Longrightarrow> toolPath \<noteq> [] \<Longrightarrow>
   downloadJavaBinary depth api release_type version jvm_impl os arch heap_size release w =
     Some (Inr (),
       w\<lparr>trace := trace w @
           [Debug (lit ''Tool found in cache '' @ toolPath),
            ExportVariable (lit ''JAVA_HOME'') toolPath,
            ExportVariable (lit ''JAVA_HOME_'' @ version @ lit ''_'' @ arch) toolPath,
            AddPath (path_join api [toolPath, lit ''bin''])]\<rparr>)"
  by (simp add: downloadJavaBinary_def publish_def emit_def Let_def)

theorem cache_hit_only_publishes_witness:
  "downloadJavaBinary 0 linux_host (lit ''ga'') (lit ''11'') (lit ''hotspot'') (lit ''linux'')
     (lit ''x64'') (lit ''normal'') (lit ''latest'') \<lparr>ext = cached_disk, trace = []\<rparr> =
   Some (Inr (),
     \<lparr>ext = cached_disk,
      trace =
        [Debug (lit ''Tool found in cache /opt/hostedtoolcache/AdoptOpenJDK/1.0.0-ga-11-hotspot-normal-latest/x64''),
         ExportVariable (lit ''JAVA_HOME'')
           (lit ''/opt/hostedtoolcache/AdoptOpenJDK/1.0.0-ga-11-hotspot-normal-latest/x64''),
         ExportVariable (lit ''JAVA_HOME_11_x64'')
           (lit ''/opt/hostedtoolcache/AdoptOpenJDK/1.0.0-ga-11-hotspot-normal-latest/x64''),
         AddPath (lit ''/opt/hostedtoolcache/AdoptOpenJDK/1.0.0-ga-11-hotspot-normal-latest/x64/bin'')]\<rparr>)"
proof -
  let ?p = "lit ''/opt/hostedtoolcache/AdoptOpenJDK/1.0.0-ga-11-hotspot-normal-latest/x64''"
  let ?w = "\<lparr>ext = cached_disk, trace = []\<rparr>"
  have hit: "tc_find linux_host toolName
      (getCacheVersionSpec (lit ''ga'') (lit ''11'') (lit ''hotspot'') (lit ''linux'') (lit ''normal'')
         (lit ''latest'')) (lit ''x64'') (ext ?w) = ?p"
    by (simp add: linux_host_fields toolName_def getCacheVersionSpec_def lit_def)
  have ne: "?p \<noteq> []" by (simp add: lit_def)
  have j: "path_join linux_host [?p, lit ''bin'']
      = lit ''/opt/hostedtoolcache/AdoptOpenJDK/1.0.0-ga-11-hotspot-normal-latest/x64/bin''"
    by (simp add: linux_host_def lit_def)
  have m: "lit ''Tool found in cache '' @ ?p =
      lit ''Tool found in cache /opt/hostedtoolcache/AdoptOpenJDK/1.0.0-ga-11-hotspot-normal-latest/x64''"
    by (simp add: lit_def)
  have v: "lit ''JAVA_HOME_'' @ lit ''11'' @ lit ''_'' @ lit ''x64'' = lit ''JAVA_HOME_11_x64''"
    by (simp add: lit_def)
  from cache_hit_only_publishes [OF hit ne, of 0] j m v show ?thesis by simp
qed

text \<open>
  C2: \<open>unpackJars\<close> visits every file of the directory tree and calls
  \<^verbatim>\<open>unpack200\<close> once for every \<^verbatim>\<open>.pack\<close> file. The code does not do that, by
  a slip its own comment contradicts (\<^verbatim>\<open>This method recursively finds all .pack files
  under fsPath and unpacks them\<close>): the loop is \<^verbatim>\<open>for (const file in \<dots>)\<close>, which
  enumerates the indices of the listing and not its entries. On a JDK directory whose
  only entry is \<^verbatim>\<open>rt.pack\<close> the loop looks at \<^verbatim>\<open>/jdk/0\<close>, which does not
  exist, and \<^verbatim>\<open>unpack200\<close> is never called; called on the file itself, the same
  function does call it.
\<close>

theorem unpackJars_for_in_misses_pack_file:
  "fs_readdirSync linux_host (lit ''/jdk'') jdk_disk = Inr [lit ''rt.pack''] \<and>
   unpackJars (Suc (Suc 0)) linux_host (lit ''/jdk'') (lit ''/jdk/bin'') \<lparr>ext = jdk_disk, trace = []\<rparr>
     = Some (Inr (), \<lparr>ext = jdk_disk, trace = []\<rparr>) \<and>
   unpackJars (Suc 0) linux_host (lit ''/jdk/rt.pack'') (lit ''/jdk/bin'') \<lparr>ext = jdk_disk, trace = []\<rparr>
     = Some (Inr (), \<lparr>ext = jdk_disk,
          trace = [Invoke ''exec.exec''
            [[34] @ lit ''/jdk/bin/unpack200'' @ [34],
             [32, 34] @ lit ''/jdk/rt.pack'' @ [34, 32, 34] @ lit ''/jdk/rt.jar'' @ [34]]]\<rparr>)"
  by (simp add: linux_host_fields lit_def for_in_keys_def call_def
        posix_extname_def posix_basename_def posix_dirname_def posix_parse_def ascii_toLowerCase_def)

end
